theory Spec2Isabelle
  imports Main "HOL-Library.List_Lexorder" "HOL-Library.Multiset"
begin

section \<open>The content store behind \<^verbatim>\<open>cms/api.py\<close>\<close>

text \<open>
  \<^verbatim>\<open>cms/api.py\<close> is a procedural layer over Django models. The tables it reads
  and writes are modelled as lists of rows, a primary key being a natural number
  and a nullable column an \<open>option\<close>. A Python object handed to the API (a page,
  a plugin, a user) is the row it was loaded from. A queryset without an explicit order
  is read in the order of the table. The position of a plugin is a non-negative integer
  column, the path of a tree node a list of steps compared lexicographically, and the
  placeholders of a page are kept on the page row.
\<close>

type_synonym tree_path = "nat list"

record page =
  page_pk :: nat
  page_created_by :: string
  page_changed_by :: string
  page_parent_id :: "nat option"
  page_publication_date :: "nat option"
  page_publication_end_date :: "nat option"
  page_in_navigation :: bool
  page_soft_root :: bool
  page_reverse_id :: "string option"
  page_navigation_extenders :: "string option"
  page_template :: string
  page_application_urls :: "string option"
  page_application_namespace :: "string option"
  page_site :: nat
  page_login_required :: bool
  page_limit_visibility_in_menu :: "nat option"
  page_xframe_options :: nat
  page_publisher_is_draft :: bool
  page_path :: tree_path
  page_placeholders :: "nat list"

record title =
  title_pk :: nat
  title_language :: string
  title_title :: string
  title_menu_title :: "string option"
  title_slug :: string
  title_redirect :: "string option"
  title_meta_description :: "string option"
  title_page :: nat
  title_has_url_overwrite :: bool
  title_path :: string
  title_published :: bool

record plugin =
  plugin_pk :: nat
  plugin_type :: string
  plugin_placeholder :: nat
  plugin_position :: nat
  plugin_language :: string
  plugin_parent_id :: "nat option"
  plugin_path :: tree_path
  plugin_model :: "string option"
  plugin_data :: "(string \<times> string) list"

record user =
  user_pk :: "nat option"
  user_username :: string
  user_is_staff :: bool
  user_is_active :: bool
  user_is_superuser :: bool
  user_email :: string

record page_user =
  pu_user :: user
  pu_created_by :: "nat option"

record cms_db =
  pages :: "page list"
  titles :: "title list"
  plugins :: "plugin list"
  users :: "user list"
  page_users :: "page_user list"
  user_permissions :: "(nat \<times> string) list"

text \<open>
  Python truthiness of an optional string: \<open>None\<close> and the empty string are false.
\<close>

fun truthy :: "string option \<Rightarrow> bool" where
  "truthy None = False"
| "truthy (Some s) = (s \<noteq> [])"

text \<open>The key a database gives to a new row: one more than every key in use.\<close>

definition fresh_pk :: "nat list \<Rightarrow> nat" where
  "fresh_pk ks = Suc (fold max ks 0)"

definition get_page :: "cms_db \<Rightarrow> nat \<Rightarrow> page option" where
  "get_page db k = find (\<lambda>p. page_pk p = k) (pages db)"

section \<open>Decimal rendering of a counter\<close>

text \<open>
  \<^verbatim>\<open>'%s-%s' % (baseslug, i)\<close> renders the integer \<open>i\<close> in decimal. The counter
  starts at 1 and only grows, so it is a natural number.
\<close>

definition digit_char :: "nat \<Rightarrow> char" where
  "digit_char d = char_of (48 + d)"

function str_nat :: "nat \<Rightarrow> string" where
  "str_nat n = (if n < 10 then [digit_char n] else str_nat (n div 10) @ [digit_char (n mod 10)])"
  by pat_completeness auto
termination
  by (relation "measure id") auto

definition digit_val :: "char \<Rightarrow> nat" where
  "digit_val c = of_char c - 48"

definition nat_of_str :: "string \<Rightarrow> nat" where
  "nat_of_str s = foldl (\<lambda>a c. 10 * a + digit_val c) 0 s"

definition slug_format :: "string \<Rightarrow> nat \<Rightarrow> string" where
  "slug_format baseslug i = baseslug @ ''-'' @ str_nat i"

lemma digit_val_digit_char: "d < 10 \<Longrightarrow> digit_val (digit_char d) = d"
  by (simp add: digit_val_def digit_char_def)

lemma nat_of_str_snoc: "nat_of_str (s @ [c]) = 10 * nat_of_str s + digit_val c"
  by (simp add: nat_of_str_def)

lemma nat_of_str_str_nat: "nat_of_str (str_nat n) = n"
proof (induction n rule: str_nat.induct)
  case (1 n)
  show ?case
  proof (cases "n < 10")
    case True
    then show ?thesis
      by (simp add: nat_of_str_def digit_val_digit_char)
  next
    case False
    then have "nat_of_str (str_nat (n div 10)) = n div 10"
      using "1.IH" by simp
    with False show ?thesis
      by (subst str_nat.simps) (simp add: nat_of_str_snoc digit_val_digit_char)
  qed
qed

lemma str_nat_inj: "str_nat m = str_nat n \<Longrightarrow> m = n"
  by (metis nat_of_str_str_nat)

lemma slug_format_inj: "inj (slug_format b)"
  by (rule injI) (simp add: slug_format_def str_nat_inj)

lemma finite_slug_candidates: "finite {j. slug_format b j \<in> set used}"
proof -
  have "finite (slug_format b -` set used)"
    by (rule finite_vimageI) (simp_all add: slug_format_inj)
  then show ?thesis by (simp add: vimage_def)
qed

section \<open>Slug generator\<close>

text \<open>
  The loop of \<^verbatim>\<open>generate_valid_slug\<close>:
  \<^verbatim>\<open>while slug in used: slug = '%s-%s' % (baseslug, i); i += 1\<close>.
  It ends because the candidates are pairwise different and \<open>used\<close> is finite.
\<close>

function slug_loop :: "string list \<Rightarrow> string \<Rightarrow> string \<Rightarrow> nat \<Rightarrow> string" where
  "slug_loop used baseslug slug i =
     (if slug \<in> set used then slug_loop used baseslug (slug_format baseslug i) (i + 1) else slug)"
  by pat_completeness auto
termination
proof (relation "measure (\<lambda>(used, b, slug, i).
          (if slug \<in> set used then 1 else 0) + card {j. i \<le> j \<and> slug_format b j \<in> set used})")
  show "wf (measure (\<lambda>(used, b, slug, i).
          (if slug \<in> set used then 1 else 0) + card {j. i \<le> j \<and> slug_format b j \<in> set used}))"
    by simp
next
  fix used :: "string list" and baseslug slug :: string and i :: nat
  assume "slug \<in> set used"
  let ?A = "\<lambda>k. {j. k \<le> j \<and> slug_format baseslug j \<in> set used}"
  have fin: "finite (?A i)"
    using finite_slug_candidates [of baseslug used] by (rule rev_finite_subset) auto
  have split: "?A i = (if slug_format baseslug i \<in> set used then insert i (?A (i + 1)) else ?A (i + 1))"
  proof (cases "slug_format baseslug i \<in> set used")
    case True
    then show ?thesis by (auto simp: Suc_le_eq le_less)
  next
    case False
    have "\<And>x. i \<le> x \<Longrightarrow> slug_format baseslug x \<in> set used \<Longrightarrow> Suc i \<le> x"
      using False by (metis Suc_leI le_neq_implies_less)
    with False show ?thesis by auto
  qed
  have notin: "i \<notin> ?A (i + 1)" by simp
  have fin': "finite (?A (i + 1))"
    using fin by (rule rev_finite_subset) auto
  have "(if slug_format baseslug i \<in> set used then 1 else 0) + card (?A (i + 1)) = card (?A i)"
    using split fin' notin by (simp split: if_splits)
  with \<open>slug \<in> set used\<close>
  show "((used, baseslug, slug_format baseslug i, i + 1), (used, baseslug, slug, i))
          \<in> measure (\<lambda>(used, b, slug, i).
          (if slug \<in> set used then 1 else 0) + card {j. i \<le> j \<and> slug_format b j \<in> set used})"
    by simp
qed

declare slug_loop.simps [simp del]

text \<open>
  \<^verbatim>\<open>Title.objects.filter(language=language, page__parent=parent)\<close> joins each title
  with its page; \<^verbatim>\<open>page__parent__isnull=True\<close> keeps the titles of pages without a
  parent. \<open>sibling_titles\<close> is that queryset, \<open>parent\<close> being the parent page handed
  in (\<open>None\<close> for Python's \<open>None\<close>).
\<close>

definition title_page_parent :: "cms_db \<Rightarrow> title \<Rightarrow> nat option option" where
  "title_page_parent db t = map_option page_parent_id (get_page db (title_page t))"

definition sibling_titles :: "cms_db \<Rightarrow> page option \<Rightarrow> string \<Rightarrow> title list" where
  "sibling_titles db parent language =
     (case parent of
        Some p \<Rightarrow> filter (\<lambda>t. title_language t = language
                          \<and> title_page_parent db t = Some (Some (page_pk p))) (titles db)
      | None \<Rightarrow> filter (\<lambda>t. title_language t = language
                          \<and> title_page_parent db t = Some None) (titles db))"

definition generate_valid_slug ::
  "(string \<Rightarrow> string) \<Rightarrow> cms_db \<Rightarrow> string \<Rightarrow> page option \<Rightarrow> string \<Rightarrow> string" where
  "generate_valid_slug slugify db source parent language =
     (let used = map title_slug (sibling_titles db parent language);
          baseslug = slugify source;
          slug = baseslug;
          i = 1
      in if used \<noteq> [] then slug_loop used baseslug slug i else slug)"

definition used_slugs :: "cms_db \<Rightarrow> page option \<Rightarrow> string \<Rightarrow> string list" where
  "used_slugs db parent language = map title_slug (sibling_titles db parent language)"

section \<open>Errors, settings and collaborators\<close>

text \<open>
  Every exception class the module raises is a constructor; the bare
  \<^verbatim>\<open>raise Exception('position not supported: %s' % position)\<close> of \<^verbatim>\<open>add_plugin\<close>
  carries the rejected position.
\<close>

datatype error =
    AssertionError
  | TypeError
  | KeyError
  | ValidationError
  | ImproperlyConfigured
  | FieldError
  | PermissionDenied
  | DoesNotExist
  | TemplateDoesNotExist
  | PositionNotSupported string

text \<open>
  \<^verbatim>\<open>_thread_locals.user\<close> holds a user object (\<^verbatim>\<open>create_page\<close>) or a user name
  (\<^verbatim>\<open>current_user\<close> in \<^verbatim>\<open>publish_page\<close>); \<open>None\<close> stands for an absent or empty slot.
\<close>

datatype acting = ActingUser user | ActingName string

text \<open>An application of the apphook pool and a plugin class of the plugin pool.\<close>

record cms_app =
  app_class :: string
  app_app_name :: "string option"

record plugin_class =
  pc_name :: string
  pc_model :: string

text \<open>
  The settings, registries and collaborators that \<^verbatim>\<open>cms/api.py\<close> imports. They are
  parameters of the model:
  \<^item> \<open>env_slugify\<close>: Django's \<^verbatim>\<open>slugify\<close>;
  \<^item> \<open>env_reversion_installed\<close>: \<^verbatim>\<open>is_installed('reversion')\<close>;
  \<^item> \<open>env_template_inheritance_magic\<close>, \<open>env_visibility_all\<close>, \<open>env_visibility_users\<close>,
    \<open>env_visibility_anonymous\<close>, \<open>env_revision_initial_comment\<close>: constants of
    \<^verbatim>\<open>cms.constants\<close>;
  \<^item> \<open>env_templates\<close>: the names in \<^verbatim>\<open>get_cms_setting('TEMPLATES')\<close>; \<open>env_template_loadable\<close>:
    whether \<^verbatim>\<open>get_template\<close> finds the template;
  \<^item> \<open>env_current_site\<close>: \<^verbatim>\<open>Site.objects.get_current()\<close>; \<open>env_language_list\<close>:
    \<^verbatim>\<open>get_language_list\<close> of a site;
  \<^item> \<open>env_menus\<close>: the names of the menus with \<^verbatim>\<open>cms_enabled\<close>;
  \<^item> \<open>env_apphooks\<close>: \<^verbatim>\<open>apphook_pool.apps\<close> after discovery, keyed by name;
  \<^item> \<open>env_plugins\<close>: \<^verbatim>\<open>plugin_pool.plugins\<close>, keyed by name; \<open>env_node_order_by\<close>:
    whether \<^verbatim>\<open>CMSPlugin.node_order_by\<close> is set;
  \<^item> \<open>env_new_root_path\<close> and \<open>env_moved_path\<close>: the tree library's path of a new root
    node, given the paths in use, and the path of each node after a move, given the keys
    and paths of all nodes, the moved node, the target and the position;
  \<^item> \<open>env_page_publish\<close>: \<^verbatim>\<open>Page.publish\<close>, run on the tables under the acting user of
    \<^verbatim>\<open>_thread_locals\<close>, returning the new tables and whether the page was published;
  \<^item> \<open>env_has_publish_permission\<close>: \<^verbatim>\<open>Page.has_publish_permission\<close> for a user;
  \<^item> \<open>env_save_permissions\<close>: \<^verbatim>\<open>cms.admin.forms.save_permissions\<close>, which rewrites the
    permissions of one user.
\<close>

record cms_env =
  env_slugify :: "string \<Rightarrow> string"
  env_reversion_installed :: bool
  env_template_inheritance_magic :: string
  env_visibility_all :: "nat option"
  env_visibility_users :: "nat option"
  env_visibility_anonymous :: "nat option"
  env_revision_initial_comment :: string
  env_templates :: "string list"
  env_template_loadable :: "string \<Rightarrow> bool"
  env_current_site :: nat
  env_language_list :: "nat \<Rightarrow> string list"
  env_menus :: "string list"
  env_apphooks :: "(string \<times> cms_app) list"
  env_plugins :: "(string \<times> plugin_class) list"
  env_node_order_by :: bool
  env_new_root_path :: "tree_path list \<Rightarrow> tree_path"
  env_moved_path :: "(nat \<times> tree_path) list \<Rightarrow> nat \<Rightarrow> nat \<Rightarrow> string \<Rightarrow> nat \<Rightarrow> tree_path"
  env_page_publish :: "acting option \<Rightarrow> cms_db \<Rightarrow> nat \<Rightarrow> string \<Rightarrow> cms_db \<times> bool"
  env_has_publish_permission :: "cms_db \<Rightarrow> page \<Rightarrow> user \<Rightarrow> bool"
  env_save_permissions ::
    "(string \<times> bool) list \<Rightarrow> nat option \<Rightarrow> (nat \<times> string) list \<Rightarrow> (nat \<times> string) list"

text \<open>
  The state a call runs in: the tables, \<^verbatim>\<open>_thread_locals.user\<close>, the language made
  current by \<^verbatim>\<open>django.utils.translation.activate\<close>, and the revisions written by
  \<^verbatim>\<open>_create_revision\<close> (object key, user, message).
\<close>

record cms_state =
  st_db :: cms_db
  st_thread_user :: "acting option"
  st_active_language :: "string option"
  st_revisions :: "(nat \<times> acting option \<times> string option) list"

definition create_revision :: "nat \<Rightarrow> acting option \<Rightarrow> string option \<Rightarrow> cms_state \<Rightarrow> cms_state" where
  "create_revision obj usr message st = st\<lparr>st_revisions := st_revisions st @ [(obj, usr, message)]\<rparr>"

definition verify_revision_support :: "cms_env \<Rightarrow> error + unit" where
  "verify_revision_support env =
     (if \<not> env_reversion_installed env then Inl ImproperlyConfigured else Inr ())"

section \<open>Apphook verification\<close>

text \<open>
  The apphook argument of \<^verbatim>\<open>create_page\<close>: an instance of a \<^verbatim>\<open>CMSApp\<close> subclass, such a
  class itself (both named by the class name), a string, or any other object.
\<close>

datatype apphook_arg =
    ApphookInstance string
  | ApphookClass string
  | ApphookString string
  | ApphookOther

text \<open>
  The check after the \<^verbatim>\<open>if/elif\<close> chain of \<^verbatim>\<open>_verify_apphook\<close>:
  \<^verbatim>\<open>apphook_pool.apps[apphook_name].app_name and not namespace\<close>.
\<close>

definition check_app_name :: "(string \<times> cms_app) list \<Rightarrow> string \<Rightarrow> string option \<Rightarrow> error + string" where
  "check_app_name apps apphook_name namespace =
     (case map_of apps apphook_name of
        None \<Rightarrow> Inl KeyError
      | Some app \<Rightarrow>
          if truthy (app_app_name app) \<and> \<not> truthy namespace then Inl ValidationError
          else Inr apphook_name)"

definition verify_apphook :: "cms_env \<Rightarrow> apphook_arg \<Rightarrow> string option \<Rightarrow> error + string" where
  "verify_apphook env apphook namespace =
     (case apphook of
        ApphookInstance cls \<Rightarrow>
          if cls \<notin> set (map (\<lambda>kv. app_class (snd kv)) (env_apphooks env)) then Inl AssertionError
          else check_app_name (env_apphooks env) cls namespace
      | ApphookClass cls \<Rightarrow> Inr cls
      | ApphookString s \<Rightarrow>
          if s \<notin> set (map fst (env_apphooks env)) then Inl AssertionError
          else check_app_name (env_apphooks env) s namespace
      | ApphookOther \<Rightarrow> Inl TypeError)"

text \<open>\<^verbatim>\<open>if apphook:\<close> in \<^verbatim>\<open>create_page\<close>: \<open>None\<close> and the empty string are false.\<close>

fun apphook_given :: "apphook_arg option \<Rightarrow> bool" where
  "apphook_given None = False"
| "apphook_given (Some (ApphookString s)) = (s \<noteq> [])"
| "apphook_given (Some _) = True"

section \<open>Title builder\<close>

record create_title_args =
  ct_language :: string
  ct_title :: string
  ct_page :: page
  ct_menu_title :: "string option"
  ct_slug :: "string option"
  ct_redirect :: "string option"
  ct_meta_description :: "string option"
  ct_parent :: "page option"
  ct_overwrite_url :: "string option"
  ct_with_revision :: bool

text \<open>\<^verbatim>\<open>if not slug: slug = generate_valid_slug(title, parent, language)\<close>.\<close>

definition default_slug ::
  "cms_env \<Rightarrow> cms_db \<Rightarrow> string option \<Rightarrow> string \<Rightarrow> page option \<Rightarrow> string \<Rightarrow> string" where
  "default_slug env db slug title_text parent language =
     (case slug of
        None \<Rightarrow> generate_valid_slug (env_slugify env) db title_text parent language
      | Some s \<Rightarrow>
          if s = [] then generate_valid_slug (env_slugify env) db title_text parent language
          else s)"

text \<open>\<^verbatim>\<open>Model.save()\<close> of a stored title: the row with its key is rewritten.\<close>

definition save_title :: "title \<Rightarrow> cms_db \<Rightarrow> cms_db" where
  "save_title t db = db\<lparr>titles := map (\<lambda>r. if title_pk r = title_pk t then t else r) (titles db)\<rparr>"

text \<open>
  \<^verbatim>\<open>create_title\<close>. The page is typed, so the \<^verbatim>\<open>isinstance\<close> assertion holds.
  \<^verbatim>\<open>Title.objects.create\<close> stores the row under a new key; with an \<^verbatim>\<open>overwrite_url\<close> the
  title is changed and saved again. The uniqueness constraints of the database are not
  part of the model.
\<close>

definition create_title :: "cms_env \<Rightarrow> create_title_args \<Rightarrow> cms_state \<Rightarrow> (error + title) \<times> cms_state" where
  "create_title env a st =
     (if ct_language a \<notin> set (env_language_list env (page_site (ct_page a)))
      then (Inl AssertionError, st)
      else if ct_with_revision a \<and> verify_revision_support env \<noteq> Inr ()
      then (Inl ImproperlyConfigured, st)
      else
        let db = st_db st;
            slug = default_slug env db (ct_slug a) (ct_title a) (ct_parent a) (ct_language a);
            t = \<lparr>title_pk = fresh_pk (map title_pk (titles db)),
                 title_language = ct_language a,
                 title_title = ct_title a,
                 title_menu_title = ct_menu_title a,
                 title_slug = slug,
                 title_redirect = ct_redirect a,
                 title_meta_description = ct_meta_description a,
                 title_page = page_pk (ct_page a),
                 title_has_url_overwrite = False,
                 title_path = [],
                 title_published = False\<rparr>;
            db1 = db\<lparr>titles := titles db @ [t]\<rparr>;
            (t1, db2) =
              (case ct_overwrite_url a of
                 None \<Rightarrow> (t, db1)
               | Some url \<Rightarrow>
                   if url = [] then (t, db1)
                   else
                     let t' = t\<lparr>title_has_url_overwrite := True, title_path := url\<rparr>
                     in (t', save_title t' db1));
            st1 = st\<lparr>st_db := db2\<rparr>;
            st2 = (if ct_with_revision a then create_revision (page_pk (ct_page a)) None None st1
                   else st1)
        in (Inr t1, st2))"

section \<open>Publishing a page\<close>

text \<open>
  \<^verbatim>\<open>page.publish(language)\<close>: the collaborator runs on the tables under the acting
  user stored in \<^verbatim>\<open>_thread_locals\<close> and reports whether the page was published.
\<close>

definition page_publish :: "cms_env \<Rightarrow> nat \<Rightarrow> string \<Rightarrow> cms_state \<Rightarrow> bool \<times> cms_state" where
  "page_publish env pk language st =
     (case env_page_publish env (st_thread_user st) (st_db st) pk language of
        (db', ok) \<Rightarrow> (ok, st\<lparr>st_db := db'\<rparr>))"

section \<open>Page builder\<close>

text \<open>\<^verbatim>\<open>created_by\<close>: a user object, or the name to store on the page.\<close>

datatype creator = CreatorUser user | CreatorName string

record create_page_args =
  cp_title :: string
  cp_template :: string
  cp_language :: string
  cp_menu_title :: "string option"
  cp_slug :: "string option"
  cp_apphook :: "apphook_arg option"
  cp_apphook_namespace :: "string option"
  cp_redirect :: "string option"
  cp_meta_description :: "string option"
  cp_created_by :: creator
  cp_parent :: "page option"
  cp_publication_date :: "nat option"
  cp_publication_end_date :: "nat option"
  cp_in_navigation :: bool
  cp_soft_root :: bool
  cp_reverse_id :: "string option"
  cp_navigation_extenders :: "string option"
  cp_published :: bool
  cp_site :: "nat option"
  cp_login_required :: bool
  cp_limit_visibility_in_menu :: "nat option"
  cp_position :: string
  cp_overwrite_url :: "string option"
  cp_xframe_options :: nat
  cp_with_revision :: bool

text \<open>\<^verbatim>\<open>if not site: site = Site.objects.get_current()\<close>.\<close>

definition resolve_site :: "cms_env \<Rightarrow> nat option \<Rightarrow> nat" where
  "resolve_site env site = (case site of None \<Rightarrow> env_current_site env | Some s \<Rightarrow> s)"

text \<open>
  The validations of \<^verbatim>\<open>create_page\<close>, in the order of the source, up to the
  normalisation of the apphook. They read the tables and change nothing. The result is
  the site, the slug, the reloaded parent, \<^verbatim>\<open>parent_id\<close> and \<^verbatim>\<open>application_urls\<close>.
  The dates are typed, so the two \<^verbatim>\<open>isinstance\<close> assertions on them hold.
\<close>

definition create_page_checks ::
  "cms_env \<Rightarrow> create_page_args \<Rightarrow> cms_db \<Rightarrow>
     error + (nat \<times> string \<times> page option \<times> nat option \<times> string option)" where
  "create_page_checks env a db =
     (if cp_with_revision a \<and> verify_revision_support env \<noteq> Inr () then Inl ImproperlyConfigured
      else if cp_template a \<noteq> env_template_inheritance_magic env
              \<and> cp_template a \<notin> set (env_templates env) then Inl AssertionError
      else if cp_template a \<noteq> env_template_inheritance_magic env
              \<and> \<not> env_template_loadable env (cp_template a) then Inl TemplateDoesNotExist
      else
        let site = resolve_site env (cp_site a) in
        if cp_language a \<notin> set (env_language_list env site) then Inl AssertionError
        else
          let slug = default_slug env db (cp_slug a) (cp_title a) (cp_parent a) (cp_language a) in
          case (case cp_parent a of
                  None \<Rightarrow> Inr None
                | Some p \<Rightarrow>
                    (case get_page db (page_pk p) of
                       None \<Rightarrow> Inl DoesNotExist
                     | Some p' \<Rightarrow> Inr (Some p'))) of
            Inl e \<Rightarrow> Inl e
          | Inr parent \<Rightarrow>
              if truthy (cp_navigation_extenders a)
                 \<and> the (cp_navigation_extenders a) \<notin> set (env_menus env) then Inl AssertionError
              else if cp_limit_visibility_in_menu a
                        \<notin> set [env_visibility_all env, env_visibility_users env,
                                env_visibility_anonymous env] then Inl AssertionError
              else if cp_position a \<notin> set [''last-child'', ''first-child'', ''left'', ''right'']
              then Inl AssertionError
              else
                let parent_id =
                      (case parent of
                         None \<Rightarrow> None
                       | Some p \<Rightarrow>
                           if cp_position a \<in> set [''last-child'', ''first-child'']
                           then Some (page_pk p) else page_parent_id p)
                in
                if apphook_given (cp_apphook a) then
                  (case verify_apphook env (the (cp_apphook a)) (cp_apphook_namespace a) of
                     Inl e \<Rightarrow> Inl e
                   | Inr name \<Rightarrow> Inr (site, slug, parent, parent_id, Some name))
                else Inr (site, slug, parent, parent_id, None))"

text \<open>
  \<^verbatim>\<open>page.add_root(instance=page)\<close> stores the page as a new root node: the database
  gives the key, the tree library the path.
\<close>

definition add_root_page :: "cms_env \<Rightarrow> page \<Rightarrow> cms_db \<Rightarrow> page \<times> cms_db" where
  "add_root_page env p db =
     (let p' = p\<lparr>page_pk := fresh_pk (map page_pk (pages db)),
                 page_path := env_new_root_path env (map page_path (pages db))\<rparr>
      in (p', db\<lparr>pages := pages db @ [p']\<rparr>))"

text \<open>
  \<^verbatim>\<open>page.move(target, pos)\<close> lets the tree library rewrite the paths and returns the
  reloaded page.
\<close>

definition move_page :: "cms_env \<Rightarrow> page \<Rightarrow> page \<Rightarrow> string \<Rightarrow> cms_db \<Rightarrow> (error + page) \<times> cms_db" where
  "move_page env p target pos db =
     (let nodes = map (\<lambda>r. (page_pk r, page_path r)) (pages db);
          db' = db\<lparr>pages := map (\<lambda>r. r\<lparr>page_path :=
                     env_moved_path env nodes (page_pk p) (page_pk target) pos (page_pk r)\<rparr>) (pages db)\<rparr>
      in (case get_page db' (page_pk p) of
            None \<Rightarrow> (Inl DoesNotExist, db')
          | Some p' \<Rightarrow> (Inr p', db')))"

text \<open>
  \<^verbatim>\<open>Page.objects.drafts().filter(reverse_id=reverse_id, site=site)\<close>: the draft pages
  of the site that carry the reverse identifier.
\<close>

definition drafts_with_reverse_id :: "cms_db \<Rightarrow> string \<Rightarrow> nat \<Rightarrow> page list" where
  "drafts_with_reverse_id db reverse_id site =
     filter (\<lambda>p. page_publisher_is_draft p \<and> page_reverse_id p = Some reverse_id \<and> page_site p = site)
       (pages db)"

text \<open>
  What \<^verbatim>\<open>create_page\<close> does once the page row is stored: the move under the parent,
  the title, the optional publication and revision, the release of the thread-local
  user and the reload.
\<close>

definition create_page_finish ::
  "cms_env \<Rightarrow> create_page_args \<Rightarrow> string \<Rightarrow> page option \<Rightarrow> page \<Rightarrow> cms_state \<Rightarrow>
     (error + page) \<times> cms_state" where
  "create_page_finish env a slug parent page0 st =
     (case (case parent of
              None \<Rightarrow> (Inr page0, st)
            | Some par \<Rightarrow>
                (case move_page env page0 par (cp_position a) (st_db st) of
                   (r, db') \<Rightarrow> (r, st\<lparr>st_db := db'\<rparr>))) of
        (Inl e, st1) \<Rightarrow> (Inl e, st1)
      | (Inr page1, st1) \<Rightarrow>
          (case create_title env
                  \<lparr>ct_language = cp_language a, ct_title = cp_title a, ct_page = page1,
                   ct_menu_title = cp_menu_title a, ct_slug = Some slug,
                   ct_redirect = cp_redirect a, ct_meta_description = cp_meta_description a,
                   ct_parent = None, ct_overwrite_url = cp_overwrite_url a,
                   ct_with_revision = False\<rparr> st1 of
             (Inl e, st2) \<Rightarrow> (Inl e, st2)
           | (Inr t, st2) \<Rightarrow>
               let st3 = (if cp_published a
                          then snd (page_publish env (page_pk page1) (cp_language a) st2)
                          else st2);
                   st4 = (if cp_with_revision a
                          then create_revision (page_pk page1) (st_thread_user st3)
                                 (Some (env_revision_initial_comment env)) st3
                          else st3);
                   st5 = st4\<lparr>st_thread_user := None\<rparr>
               in (case get_page (st_db st5) (page_pk page1) of
                     None \<Rightarrow> (Inl DoesNotExist, st5)
                   | Some p \<Rightarrow> (Inr p, st5))))"

text \<open>
  \<^verbatim>\<open>create_page\<close>. After the validations the thread-local user is set, the reverse
  identifier is checked against the draft pages of the site, and the page is built from
  the arguments, the columns that are not given keeping their defaults (a new page is a
  draft without placeholders), and stored as a root node.
\<close>

definition create_page :: "cms_env \<Rightarrow> create_page_args \<Rightarrow> cms_state \<Rightarrow> (error + page) \<times> cms_state" where
  "create_page env a st =
     (case create_page_checks env a (st_db st) of
        Inl e \<Rightarrow> (Inl e, st)
      | Inr (site, slug, parent, parent_id, application_urls) \<Rightarrow>
          let (thread_user, created_by) =
                (case cp_created_by a of
                   CreatorUser u \<Rightarrow> (Some (ActingUser u), user_username u)
                 | CreatorName n \<Rightarrow> (None, n));
              st1 = st\<lparr>st_thread_user := thread_user\<rparr>
          in
          if truthy (cp_reverse_id a)
             \<and> length (drafts_with_reverse_id (st_db st1) (the (cp_reverse_id a)) site) \<noteq> 0
          then (Inl FieldError, st1)
          else
            let page0 =
                  \<lparr>page_pk = 0,
                   page_created_by = created_by,
                   page_changed_by = created_by,
                   page_parent_id = parent_id,
                   page_publication_date = cp_publication_date a,
                   page_publication_end_date = cp_publication_end_date a,
                   page_in_navigation = cp_in_navigation a,
                   page_soft_root = cp_soft_root a,
                   page_reverse_id = cp_reverse_id a,
                   page_navigation_extenders = cp_navigation_extenders a,
                   page_template = cp_template a,
                   page_application_urls = application_urls,
                   page_application_namespace = cp_apphook_namespace a,
                   page_site = site,
                   page_login_required = cp_login_required a,
                   page_limit_visibility_in_menu = cp_limit_visibility_in_menu a,
                   page_xframe_options = cp_xframe_options a,
                   page_publisher_is_draft = True,
                   page_path = [],
                   page_placeholders = []\<rparr>;
                (page1, db1) = add_root_page env page0 (st_db st1)
            in create_page_finish env a slug parent page1 (st1\<lparr>st_db := db1\<rparr>))"

section \<open>Plugin placer\<close>

text \<open>
  The plugin type handed to \<^verbatim>\<open>add_plugin\<close>: a \<^verbatim>\<open>CMSPluginBase\<close> subclass, a string,
  or any other object.
\<close>

datatype plugin_type_arg = PluginClass plugin_class | PluginName string | PluginOther

text \<open>\<^verbatim>\<open>_verify_plugin_type\<close> returns the pair \<^verbatim>\<open>(plugin_model, plugin_type)\<close>.\<close>

definition verify_plugin_type :: "cms_env \<Rightarrow> plugin_type_arg \<Rightarrow> error + (string \<times> string)" where
  "verify_plugin_type env pt =
     (case pt of
        PluginClass c \<Rightarrow>
          if c \<notin> set (map snd (env_plugins env)) then Inl AssertionError
          else Inr (pc_model c, pc_name c)
      | PluginName n \<Rightarrow>
          (case map_of (env_plugins env) n of
             None \<Rightarrow> Inl TypeError
           | Some c \<Rightarrow> Inr (pc_model c, n))
      | PluginOther \<Rightarrow> Inl TypeError)"

record add_plugin_args =
  ap_placeholder :: nat
  ap_plugin_type :: plugin_type_arg
  ap_language :: string
  ap_position :: string
  ap_target :: "plugin option"
  ap_data :: "(string \<times> string) list"

definition save_plugin :: "plugin \<Rightarrow> cms_db \<Rightarrow> cms_db" where
  "save_plugin pl db =
     db\<lparr>plugins := map (\<lambda>r. if plugin_pk r = plugin_pk pl then pl else r) (plugins db)\<rparr>"

text \<open>\<^verbatim>\<open>for pl in qs: pl.position += 1; pl.save()\<close>, the queryset being read first.\<close>

definition shift_positions :: "plugin list \<Rightarrow> cms_db \<Rightarrow> cms_db" where
  "shift_positions qs db =
     fold (\<lambda>pl. save_plugin (pl\<lparr>plugin_position := plugin_position pl + 1\<rparr>)) qs db"

text \<open>
  The \<^verbatim>\<open>if/elif\<close> chain of the branch with a target: the position handed to the tree
  library, the new position and the parent key, or the error of the last branch.
\<close>

definition target_placement ::
  "cms_env \<Rightarrow> cms_db \<Rightarrow> string \<Rightarrow> plugin \<Rightarrow> error + (string \<times> nat \<times> nat option)" where
  "target_placement env db position target =
     (if position = ''last-child'' then
        Inr (if env_node_order_by env then ''sorted-child'' else position,
             length (filter (\<lambda>pl. plugin_parent_id pl = Some (plugin_pk target)) (plugins db)),
             Some (plugin_pk target))
      else if position = ''first-child'' then
        Inr (if env_node_order_by env then ''sorted-child'' else position, 0,
             Some (plugin_pk target))
      else if position = ''left'' then
        Inr (if env_node_order_by env then ''sorted-sibling'' else position,
             plugin_position target, plugin_parent_id target)
      else if position = ''right'' then
        Inr (if env_node_order_by env then ''sorted-sibling'' else position,
             plugin_position target + 1, plugin_parent_id target)
      else Inl (PositionNotSupported position))"

text \<open>
  The placement of \<^verbatim>\<open>add_plugin\<close>: the sibling renumbering of either branch. The result
  is the position for the tree library, \<^verbatim>\<open>new_pos\<close>, \<^verbatim>\<open>parent_id\<close> and the tables.
\<close>

definition place_plugin ::
  "cms_env \<Rightarrow> add_plugin_args \<Rightarrow> cms_db \<Rightarrow> error + (string \<times> nat \<times> nat option \<times> cms_db)" where
  "place_plugin env a db =
     (case ap_target a of
        Some target \<Rightarrow>
          (case target_placement env db (ap_position a) target of
             Inl e \<Rightarrow> Inl e
           | Inr (position, new_pos, parent_id) \<Rightarrow>
               let qs =
                     (if position = ''last-child'' \<or> position = ''first-child'' then
                        filter (\<lambda>pl. plugin_language pl = ap_language a
                                   \<and> plugin_parent_id pl = Some (plugin_pk target)
                                   \<and> new_pos \<le> plugin_position pl
                                   \<and> plugin_placeholder pl = ap_placeholder a) (plugins db)
                      else
                        filter (\<lambda>pl. plugin_language pl = ap_language a
                                   \<and> plugin_parent_id pl = plugin_parent_id target
                                   \<and> new_pos \<le> plugin_position pl
                                   \<and> plugin_placeholder pl = ap_placeholder a) (plugins db))
               in Inr (position, new_pos, parent_id, shift_positions qs db))
      | None \<Rightarrow>
          if ap_position a = ''last-child'' then
            Inr (ap_position a,
                 length (filter (\<lambda>pl. plugin_language pl = ap_language a
                                    \<and> plugin_parent_id pl = None
                                    \<and> plugin_placeholder pl = ap_placeholder a) (plugins db)),
                 None, db)
          else
            let new_pos = 0;
                qs = filter (\<lambda>pl. plugin_language pl = ap_language a
                                \<and> plugin_parent_id pl = None
                                \<and> new_pos \<le> plugin_position pl
                                \<and> plugin_placeholder pl = ap_placeholder a) (plugins db)
            in Inr (ap_position a, new_pos, None, shift_positions qs db))"

definition add_root_plugin :: "cms_env \<Rightarrow> plugin \<Rightarrow> cms_db \<Rightarrow> plugin \<times> cms_db" where
  "add_root_plugin env pl db =
     (let pl' = pl\<lparr>plugin_pk := fresh_pk (map plugin_pk (plugins db)),
                   plugin_path := env_new_root_path env (map plugin_path (plugins db))\<rparr>
      in (pl', db\<lparr>plugins := plugins db @ [pl']\<rparr>))"

definition get_plugin :: "cms_db \<Rightarrow> nat \<Rightarrow> plugin option" where
  "get_plugin db k = find (\<lambda>pl. plugin_pk pl = k) (plugins db)"

definition move_plugin ::
  "cms_env \<Rightarrow> plugin \<Rightarrow> plugin \<Rightarrow> string \<Rightarrow> cms_db \<Rightarrow> (error + plugin) \<times> cms_db" where
  "move_plugin env pl target pos db =
     (let nodes = map (\<lambda>r. (plugin_pk r, plugin_path r)) (plugins db);
          db' = db\<lparr>plugins := map (\<lambda>r. r\<lparr>plugin_path :=
                     env_moved_path env nodes (plugin_pk pl) (plugin_pk target) pos (plugin_pk r)\<rparr>)
                   (plugins db)\<rparr>
      in (case get_plugin db' (plugin_pk pl) of
            None \<Rightarrow> (Inl DoesNotExist, db')
          | Some pl' \<Rightarrow> (Inr pl', db')))"

text \<open>
  \<^verbatim>\<open>add_plugin\<close>. The generic node is stored as a root of the plugin tree and moved
  next to the target if there is one; \<^verbatim>\<open>plugin_model(**data)\<close> with the attributes of
  the node is then saved under the key of the node.
\<close>

definition add_plugin :: "cms_env \<Rightarrow> add_plugin_args \<Rightarrow> cms_db \<Rightarrow> (error + plugin) \<times> cms_db" where
  "add_plugin env a db =
     (case verify_plugin_type env (ap_plugin_type a) of
        Inl e \<Rightarrow> (Inl e, db)
      | Inr (model, ptype) \<Rightarrow>
          (case place_plugin env a db of
             Inl e \<Rightarrow> (Inl e, db)
           | Inr (position, new_pos, parent_id, db1) \<Rightarrow>
               let (plugin_base, db2) =
                     add_root_plugin env
                       \<lparr>plugin_pk = 0, plugin_type = ptype,
                        plugin_placeholder = ap_placeholder a, plugin_position = new_pos,
                        plugin_language = ap_language a, plugin_parent_id = parent_id,
                        plugin_path = [], plugin_model = None, plugin_data = []\<rparr> db1
               in
               (case (case ap_target a of
                        None \<Rightarrow> (Inr plugin_base, db2)
                      | Some target \<Rightarrow> move_plugin env plugin_base target position db2) of
                  (Inl e, db3) \<Rightarrow> (Inl e, db3)
                | (Inr pb, db3) \<Rightarrow>
                    let plugin = pb\<lparr>plugin_model := Some model, plugin_data := ap_data a\<rparr>
                    in (Inr plugin, save_plugin plugin db3))))"

section \<open>Page users\<close>

record page_user_flags =
  can_add_page :: bool
  can_view_page :: bool
  can_change_page :: bool
  can_delete_page :: bool
  can_recover_page :: bool
  can_add_pageuser :: bool
  can_change_pageuser :: bool
  can_delete_pageuser :: bool
  can_add_pagepermission :: bool
  can_change_pagepermission :: bool
  can_delete_pagepermission :: bool

definition all_flags :: page_user_flags where
  "all_flags =
     \<lparr>can_add_page = True, can_view_page = True, can_change_page = True,
      can_delete_page = True, can_recover_page = True, can_add_pageuser = True,
      can_change_pageuser = True, can_delete_pageuser = True,
      can_add_pagepermission = True, can_change_pagepermission = True,
      can_delete_pagepermission = True\<rparr>"

definition permission_data :: "page_user_flags \<Rightarrow> (string \<times> bool) list" where
  "permission_data f =
     [(''can_add_page'', can_add_page f),
      (''can_view_page'', can_view_page f),
      (''can_change_page'', can_change_page f),
      (''can_delete_page'', can_delete_page f),
      (''can_recover_page'', can_recover_page f),
      (''can_add_pageuser'', can_add_pageuser f),
      (''can_change_pageuser'', can_change_pageuser f),
      (''can_delete_pageuser'', can_delete_pageuser f),
      (''can_add_pagepermission'', can_add_pagepermission f),
      (''can_change_pagepermission'', can_change_pagepermission f),
      (''can_delete_pagepermission'', can_delete_pagepermission f)]"

text \<open>
  \<^verbatim>\<open>Model.save()\<close> of a user: an object without a key is inserted and receives one,
  an object with a key replaces the row of that key, or is inserted if there is none.
\<close>

definition stored_user_pks :: "cms_db \<Rightarrow> nat list" where
  "stored_user_pks db = List.map_filter user_pk (users db)"

definition save_user :: "user \<Rightarrow> cms_db \<Rightarrow> user \<times> cms_db" where
  "save_user u db =
     (case user_pk u of
        None \<Rightarrow>
          let u' = u\<lparr>user_pk := Some (fresh_pk (stored_user_pks db))\<rparr>
          in (u', db\<lparr>users := users db @ [u']\<rparr>)
      | Some k \<Rightarrow>
          if k \<in> set (stored_user_pks db)
          then (u, db\<lparr>users := map (\<lambda>r. if user_pk r = Some k then u else r) (users db)\<rparr>)
          else (u, db\<lparr>users := users db @ [u]\<rparr>))"

text \<open>
  \<^verbatim>\<open>PageUser\<close> extends the user model: saving a page user saves its user fields as a
  user row, then the page user row of the same key.
\<close>

definition save_page_user :: "page_user \<Rightarrow> cms_db \<Rightarrow> page_user \<times> cms_db" where
  "save_page_user pu db =
     (let (u', db1) = save_user (pu_user pu) db;
          pu' = pu\<lparr>pu_user := u'\<rparr>
      in (pu', db1\<lparr>page_users :=
                     filter (\<lambda>r. user_pk (pu_user r) \<noteq> user_pk u') (page_users db1) @ [pu']\<rparr>))"

function create_page_user ::
  "cms_env \<Rightarrow> creator \<Rightarrow> user \<Rightarrow> page_user_flags \<Rightarrow> bool \<Rightarrow> cms_db \<Rightarrow> (error + user) \<times> cms_db" where
  "create_page_user env created_by usr flags grant_all db =
     (if grant_all then create_page_user env created_by usr all_flags False db
      else
        case created_by of
          CreatorName n \<Rightarrow> (Inl AssertionError, db)
        | CreatorUser creator_user \<Rightarrow>
            let data = permission_data flags;
                usr1 = usr\<lparr>user_is_staff := True, user_is_active := True\<rparr>;
                page_user = \<lparr>pu_user = usr1, pu_created_by = user_pk creator_user\<rparr>;
                (usr2, db1) = save_user usr1 db;
                (page_user1, db2) = save_page_user page_user db1;
                db3 = db2\<lparr>user_permissions :=
                        env_save_permissions env data (user_pk (pu_user page_user1))
                          (user_permissions db2)\<rparr>
            in (Inr usr2, db3))"
  by pat_completeness auto
termination
  by (relation "measure (\<lambda>(env, created_by, usr, flags, grant_all, db). if grant_all then 1 else 0)")
     auto

declare create_page_user.simps [simp del]

section \<open>Publication workflow\<close>

text \<open>
  Modelled from the spec: the context manager \<^verbatim>\<open>current_user\<close> of
  \<^verbatim>\<open>cms.utils.permissions\<close> is not among the sources. The body runs under the
  identity of the named user, and the identity that was current before is restored
  afterwards.
\<close>

definition current_user ::
  "string \<Rightarrow> (cms_state \<Rightarrow> 'a \<times> cms_state) \<Rightarrow> cms_state \<Rightarrow> 'a \<times> cms_state" where
  "current_user name body st =
     (let old_user = st_thread_user st;
          (r, st1) = body (st\<lparr>st_thread_user := Some (ActingName name)\<rparr>)
      in (r, st1\<lparr>st_thread_user := old_user\<rparr>))"

definition publish_page ::
  "cms_env \<Rightarrow> page \<Rightarrow> user \<Rightarrow> string \<Rightarrow> cms_state \<Rightarrow> (error + page) \<times> cms_state" where
  "publish_page env page0 usr language st =
     (case get_page (st_db st) (page_pk page0) of
        None \<Rightarrow> (Inl DoesNotExist, st)
      | Some page1 \<Rightarrow>
          if \<not> env_has_publish_permission env (st_db st) page1 usr
          then (Inl PermissionDenied, st)
          else
            let (ok, st1) = current_user (user_username usr)
                              (page_publish env (page_pk page1) language) st
            in (case get_page (st_db st1) (page_pk page1) of
                  None \<Rightarrow> (Inl DoesNotExist, st1)
                | Some p \<Rightarrow> (Inr p, st1)))"

text \<open>
  \<^verbatim>\<open>django.utils.translation.activate\<close> makes a language current; it returns at once
  for a false argument (\<^verbatim>\<open>if not language: return\<close>).
\<close>

definition activate :: "string option \<Rightarrow> cms_state \<Rightarrow> cms_state" where
  "activate language st = (if truthy language then st\<lparr>st_active_language := language\<rparr> else st)"

text \<open>
  The inner loop of \<^verbatim>\<open>publish_pages\<close> over the languages of the titles of one page.
  The accumulator is \<^verbatim>\<open>output_language\<close>, \<^verbatim>\<open>add\<close> and the state.
\<close>

fun publish_languages ::
  "cms_env \<Rightarrow> nat \<Rightarrow> string option \<Rightarrow> string list \<Rightarrow> string option \<times> bool \<times> cms_state \<Rightarrow>
     string option \<times> bool \<times> cms_state" where
  "publish_languages env pk language [] acc = acc"
| "publish_languages env pk language (lang # langs) (output_language, add, st) =
     (if language = None \<or> Some lang = language then
        let output_language1 = (if \<not> truthy output_language then Some lang else output_language);
            (ok, st1) = page_publish env pk lang st;
            add1 = (if \<not> ok then False else add)
        in publish_languages env pk language langs (output_language1, add1, st1)
      else publish_languages env pk language langs (output_language, add, st))"

text \<open>
  \<^verbatim>\<open>titles.values_list("language", flat=True)\<close> for one page: the languages of its
  titles, of the published ones only unless \<^verbatim>\<open>include_unpublished\<close>.
\<close>

definition title_languages :: "bool \<Rightarrow> cms_db \<Rightarrow> page \<Rightarrow> string list" where
  "title_languages include_unpublished db p =
     map title_language
       (filter (\<lambda>t. title_page t = page_pk p \<and> (include_unpublished \<or> title_published t))
          (titles db))"

text \<open>
  The outer loop over the selected pages. The generator is run to its end: the result
  is the list of the pairs it yields and the final state.
\<close>

fun publish_pages_loop ::
  "cms_env \<Rightarrow> bool \<Rightarrow> string option \<Rightarrow> page list \<Rightarrow> string option \<Rightarrow> cms_state \<Rightarrow>
     (page \<times> bool) list \<times> cms_state" where
  "publish_pages_loop env include_unpublished language [] output_language st = ([], st)"
| "publish_pages_loop env include_unpublished language (p # qs) output_language st =
     (case publish_languages env (page_pk p) language
             (title_languages include_unpublished (st_db st) p) (output_language, True, st) of
        (output_language1, add, st1) \<Rightarrow>
          (case publish_pages_loop env include_unpublished language qs output_language1
                  (activate output_language1 st1) of
             (rest, st2) \<Rightarrow> ((p, add) # rest, st2)))"

text \<open>
  The queryset of \<^verbatim>\<open>publish_pages\<close>: the drafts, those with a published title unless
  \<^verbatim>\<open>include_unpublished\<close>, each once, those of the site if one is given.
\<close>

definition selected_drafts :: "bool \<Rightarrow> nat option \<Rightarrow> cms_db \<Rightarrow> page list" where
  "selected_drafts include_unpublished site db =
     (let qs = filter page_publisher_is_draft (pages db);
          qs1 = (if \<not> include_unpublished
                 then filter (\<lambda>p. list_ex (\<lambda>t. title_page t = page_pk p \<and> title_published t)
                                      (titles db)) qs
                 else qs)
      in case site of None \<Rightarrow> qs1 | Some s \<Rightarrow> filter (\<lambda>p. page_site p = s) qs1)"

definition publish_pages ::
  "cms_env \<Rightarrow> bool \<Rightarrow> string option \<Rightarrow> nat option \<Rightarrow> cms_state \<Rightarrow> (page \<times> bool) list \<times> cms_state" where
  "publish_pages env include_unpublished language site st =
     publish_pages_loop env include_unpublished language
       (selected_drafts include_unpublished site (st_db st)) None st"

section \<open>Language copy\<close>

text \<open>
  Modelled from the spec: \<^verbatim>\<open>copy_plugins_to\<close> of \<^verbatim>\<open>cms.utils.copy_plugins\<close> is not
  among the sources. It duplicates every content block of the list it is given, in the
  order of the list, into the placeholder and the language, and returns the duplicates.
  A duplicate has a new key and keeps the type, the position and the data of its
  original; its parent is the duplicate of the parent of the original; its path is the
  path of the original below a new step \<open>k\<close>, so that the duplicates are in the tree
  order of their originals.
\<close>

fun copy_plugins_loop ::
  "nat \<Rightarrow> nat \<Rightarrow> string \<Rightarrow> plugin list \<Rightarrow> (nat \<times> nat) list \<Rightarrow> cms_db \<Rightarrow> plugin list \<times> cms_db" where
  "copy_plugins_loop k to_placeholder to_language [] cache db = ([], db)"
| "copy_plugins_loop k to_placeholder to_language (old # olds) cache db =
     (let new = old\<lparr>plugin_pk := fresh_pk (map plugin_pk (plugins db)),
                    plugin_placeholder := to_placeholder,
                    plugin_language := to_language,
                    plugin_parent_id :=
                      (case plugin_parent_id old of None \<Rightarrow> None | Some q \<Rightarrow> map_of cache q),
                    plugin_path := k # plugin_path old\<rparr>
      in case copy_plugins_loop k to_placeholder to_language olds
                ((plugin_pk old, plugin_pk new) # cache) (db\<lparr>plugins := plugins db @ [new]\<rparr>) of
           (news, db') \<Rightarrow> (new # news, db'))"

definition copy_plugins_to :: "plugin list \<Rightarrow> nat \<Rightarrow> string \<Rightarrow> cms_db \<Rightarrow> plugin list \<times> cms_db" where
  "copy_plugins_to old_plugins to_placeholder to_language db =
     copy_plugins_loop (fresh_pk (concat (map plugin_path (plugins db))))
       to_placeholder to_language old_plugins [] db"

text \<open>
  \<^verbatim>\<open>placeholder.cmsplugin_set.filter(language=...)\<close>, and the same ordered by path.
\<close>

definition placeholder_plugins :: "cms_db \<Rightarrow> nat \<Rightarrow> string \<Rightarrow> plugin list" where
  "placeholder_plugins db placeholder language =
     filter (\<lambda>pl. plugin_placeholder pl = placeholder \<and> plugin_language pl = language) (plugins db)"

definition source_plugins :: "cms_db \<Rightarrow> nat \<Rightarrow> string \<Rightarrow> plugin list" where
  "source_plugins db placeholder language =
     sort_key plugin_path (placeholder_plugins db placeholder language)"

text \<open>The loop of \<^verbatim>\<open>copy_plugins_to_language\<close> over the placeholders of the page.\<close>

fun copy_placeholders ::
  "string \<Rightarrow> string \<Rightarrow> bool \<Rightarrow> nat list \<Rightarrow> nat \<Rightarrow> cms_db \<Rightarrow> nat \<times> cms_db" where
  "copy_placeholders source_language target_language only_empty [] copied db = (copied, db)"
| "copy_placeholders source_language target_language only_empty (placeholder # rest) copied db =
     (if \<not> only_empty \<or> \<not> (placeholder_plugins db placeholder target_language \<noteq> []) then
        case copy_plugins_to (source_plugins db placeholder source_language)
               placeholder target_language db of
          (copied_plugins, db') \<Rightarrow>
            copy_placeholders source_language target_language only_empty rest
              (copied + length copied_plugins) db'
      else copy_placeholders source_language target_language only_empty rest copied db)"

definition copy_plugins_to_language ::
  "page \<Rightarrow> string \<Rightarrow> string \<Rightarrow> bool \<Rightarrow> cms_db \<Rightarrow> nat \<times> cms_db" where
  "copy_plugins_to_language page0 source_language target_language only_empty db =
     copy_placeholders source_language target_language only_empty (page_placeholders page0) 0 db"

section \<open>Sample data\<close>

text \<open>Rows and settings of a small site, for evaluating the operations.\<close>

definition sample_page :: "nat \<Rightarrow> nat option \<Rightarrow> nat \<Rightarrow> string option \<Rightarrow> bool \<Rightarrow> page" where
  "sample_page pk parent site reverse_id draft =
     \<lparr>page_pk = pk, page_created_by = ''admin'', page_changed_by = ''admin'',
      page_parent_id = parent, page_publication_date = None, page_publication_end_date = None,
      page_in_navigation = True, page_soft_root = False, page_reverse_id = reverse_id,
      page_navigation_extenders = None, page_template = ''INHERIT'',
      page_application_urls = None, page_application_namespace = None, page_site = site,
      page_login_required = False, page_limit_visibility_in_menu = None,
      page_xframe_options = 0, page_publisher_is_draft = draft, page_path = [pk],
      page_placeholders = []\<rparr>"

definition sample_title :: "nat \<Rightarrow> string \<Rightarrow> string \<Rightarrow> nat \<Rightarrow> bool \<Rightarrow> title" where
  "sample_title pk language slug pg published =
     \<lparr>title_pk = pk, title_language = language, title_title = slug, title_menu_title = None,
      title_slug = slug, title_redirect = None, title_meta_description = None,
      title_page = pg, title_has_url_overwrite = False, title_path = slug,
      title_published = published\<rparr>"

definition sample_plugin :: "nat \<Rightarrow> nat \<Rightarrow> string \<Rightarrow> nat \<Rightarrow> nat option \<Rightarrow> tree_path \<Rightarrow> plugin" where
  "sample_plugin pk placeholder language position parent path =
     \<lparr>plugin_pk = pk, plugin_type = ''TextPlugin'', plugin_placeholder = placeholder,
      plugin_position = position, plugin_language = language, plugin_parent_id = parent,
      plugin_path = path, plugin_model = Some ''Text'', plugin_data = []\<rparr>"

definition sample_user :: "nat \<Rightarrow> string \<Rightarrow> user" where
  "sample_user pk name =
     \<lparr>user_pk = Some pk, user_username = name, user_is_staff = False, user_is_active = False,
      user_is_superuser = False, user_email = []\<rparr>"

definition sample_db :: "page list \<Rightarrow> title list \<Rightarrow> plugin list \<Rightarrow> cms_db" where
  "sample_db ps ts pls =
     \<lparr>pages = ps, titles = ts, plugins = pls, users = [], page_users = [], user_permissions = []\<rparr>"

definition sample_state :: "cms_db \<Rightarrow> cms_state" where
  "sample_state db =
     \<lparr>st_db = db, st_thread_user = None, st_active_language = None, st_revisions = []\<rparr>"

text \<open>
  A sample publish operation: it fails for the language \<open>''de''\<close>; for any other language
  it marks the title of the page as published and records the acting user on the page.
\<close>

definition acting_name :: "acting option \<Rightarrow> string" where
  "acting_name acting =
     (case acting of
        None \<Rightarrow> ''script''
      | Some (ActingUser u) \<Rightarrow> user_username u
      | Some (ActingName n) \<Rightarrow> n)"

definition sample_publish :: "acting option \<Rightarrow> cms_db \<Rightarrow> nat \<Rightarrow> string \<Rightarrow> cms_db \<times> bool" where
  "sample_publish acting db pk language =
     (if language = ''de'' then (db, False)
      else
        (db\<lparr>pages := map (\<lambda>p. if page_pk p = pk then p\<lparr>page_changed_by := acting_name acting\<rparr>
                             else p) (pages db),
            titles := map (\<lambda>t. if title_page t = pk \<and> title_language t = language
                                then t\<lparr>title_published := True\<rparr> else t) (titles db)\<rparr>,
         True))"

text \<open>
  The sample settings: one template, site 1 with English and German, one apphook with an
  application name, one plugin class; only the user \<open>''editor''\<close> may publish.
\<close>

definition sample_env :: cms_env where
  "sample_env =
     \<lparr>env_slugify = (\<lambda>s. s),
      env_reversion_installed = False,
      env_template_inheritance_magic = ''INHERIT'',
      env_visibility_all = None,
      env_visibility_users = Some 1,
      env_visibility_anonymous = Some 2,
      env_revision_initial_comment = ''Initial version.'',
      env_templates = [''page.html''],
      env_template_loadable = (\<lambda>t. t = ''page.html''),
      env_current_site = 1,
      env_language_list = (\<lambda>site. [''en'', ''de'']),
      env_menus = [],
      env_apphooks = [(''SampleApp'', \<lparr>app_class = ''SampleApp'', app_app_name = Some ''sample''\<rparr>)],
      env_plugins = [(''TextPlugin'', \<lparr>pc_name = ''TextPlugin'', pc_model = ''Text''\<rparr>)],
      env_node_order_by = False,
      env_new_root_path = (\<lambda>paths. [fresh_pk (concat paths)]),
      env_moved_path = (\<lambda>nodes moved target pos k. case map_of nodes k of None \<Rightarrow> [] | Some p \<Rightarrow> p),
      env_page_publish = sample_publish,
      env_has_publish_permission = (\<lambda>db p u. user_username u = ''editor''),
      env_save_permissions = (\<lambda>data pk perms. perms)\<rparr>"

text \<open>A root page with three children, for the slug generator.\<close>

definition news_pages :: "page list" where
  "news_pages =
     [sample_page 1 None 1 None True, sample_page 2 (Some 1) 1 None True,
      sample_page 3 (Some 1) 1 None True, sample_page 4 (Some 1) 1 None True]"

text \<open>The arguments of a call that creates a page \<open>Home\<close>, and of a call that adds a text plugin.\<close>

definition sample_page_args :: create_page_args where
  "sample_page_args =
     \<lparr>cp_title = ''Home'', cp_template = ''page.html'', cp_language = ''en'',
      cp_menu_title = None, cp_slug = None, cp_apphook = None,
      cp_apphook_namespace = None, cp_redirect = None, cp_meta_description = None,
      cp_created_by = CreatorName ''python-api'', cp_parent = None, cp_publication_date = None,
      cp_publication_end_date = None, cp_in_navigation = False, cp_soft_root = False,
      cp_reverse_id = None, cp_navigation_extenders = None, cp_published = False, cp_site = None,
      cp_login_required = False, cp_limit_visibility_in_menu = None, cp_position = ''last-child'',
      cp_overwrite_url = None, cp_xframe_options = 0, cp_with_revision = False\<rparr>"

definition sample_plugin_args :: "string \<Rightarrow> plugin option \<Rightarrow> add_plugin_args" where
  "sample_plugin_args position target =
     \<lparr>ap_placeholder = 1, ap_plugin_type = PluginName ''TextPlugin'', ap_language = ''en'',
      ap_position = position, ap_target = target, ap_data = []\<rparr>"

text \<open>A state with one draft page and its English title.\<close>

definition home_state :: cms_state where
  "home_state =
     sample_state (sample_db [sample_page 1 None 1 None True]
       [sample_title 1 ''en'' ''home'' 1 False] [])"

text \<open>Tables with two users.\<close>

definition users_db :: cms_db where
  "users_db = (sample_db [] [] [])\<lparr>users := [sample_user 1 ''admin'', sample_user 2 ''bob'']\<rparr>"

text \<open>A state with one draft page of site 1 that carries the reverse identifier \<open>home\<close>.\<close>

definition reverse_state :: cms_state where
  "reverse_state = sample_state (sample_db [sample_page 1 None 1 (Some ''home'') True] [] [])"

text \<open>
  Plugin tables: two root plugins and a child plugin in placeholder 1 in English, a root
  plugin of the same placeholder in German, and a root plugin of placeholder 2.
\<close>

definition plugins_db :: cms_db where
  "plugins_db =
     sample_db [] []
       [sample_plugin 1 1 ''en'' 0 None [1], sample_plugin 2 1 ''en'' 1 None [2],
        sample_plugin 3 1 ''en'' 0 (Some 1) [1, 1], sample_plugin 4 1 ''de'' 0 None [3],
        sample_plugin 5 2 ''en'' 0 None [4]]"

text \<open>
  A state with two draft pages and a public page. The first draft has a German and an
  English title, the other pages an English one; all titles are published.
\<close>

definition bilingual_state :: cms_state where
  "bilingual_state =
     sample_state (sample_db
       [sample_page 1 None 1 None True, sample_page 2 None 1 None True,
        sample_page 3 None 1 None False]
       [sample_title 1 ''de'' ''start'' 1 True, sample_title 2 ''en'' ''home'' 1 True,
        sample_title 3 ''en'' ''news'' 2 True, sample_title 4 ''en'' ''home'' 3 True] [])"

text \<open>A page with the placeholders 1 and 2.\<close>

definition two_placeholders :: page where
  "two_placeholders = (sample_page 1 None 1 None True)\<lparr>page_placeholders := [1, 2]\<rparr>"

text \<open>
  The arguments of a call that creates an English title \<open>news\<close> for a child of page 1,
  the slug being left to the slug generator.
\<close>

definition news_title_args :: "nat \<Rightarrow> create_title_args" where
  "news_title_args pk =
     \<lparr>ct_language = ''en'', ct_title = ''news'',
      ct_page = sample_page pk (Some 1) 1 None True, ct_menu_title = None, ct_slug = None,
      ct_redirect = None, ct_meta_description = None,
      ct_parent = Some (sample_page 1 None 1 None True), ct_overwrite_url = None,
      ct_with_revision = False\<rparr>"

section \<open>Contracts of the collaborators\<close>

text \<open>
  What \<^verbatim>\<open>create_page\<close> relies on when it publishes the new page and reloads it:
  \<^verbatim>\<open>Page.publish\<close> keeps the draft page it publishes, with its reverse identifier and
  its site.
\<close>

definition publish_keeps_page :: "cms_env \<Rightarrow> bool" where
  "publish_keeps_page env \<longleftrightarrow>
     (\<forall>acting db k language p.
        get_page db k = Some p \<longrightarrow>
        (\<exists>p'. get_page (fst (env_page_publish env acting db k language)) k = Some p'
              \<and> page_reverse_id p' = page_reverse_id p \<and> page_site p' = page_site p))"

section \<open>Notions of the claims\<close>

text \<open>
  The root-level plugins of the placeholder and the language of an \<^verbatim>\<open>add_plugin\<close> call:
  the rows selected by \<^verbatim>\<open>language=language, parent__isnull=True, placeholder=placeholder\<close>.
\<close>

definition root_sibling :: "add_plugin_args \<Rightarrow> plugin \<Rightarrow> bool" where
  "root_sibling a pl \<longleftrightarrow>
     plugin_language pl = ap_language a \<and> plugin_parent_id pl = None
     \<and> plugin_placeholder pl = ap_placeholder a"

text \<open>A plugin one position further.\<close>

definition shifted :: "plugin \<Rightarrow> plugin" where
  "shifted pl = pl\<lparr>plugin_position := plugin_position pl + 1\<rparr>"

text \<open>
  The publications that \<^verbatim>\<open>publish_pages\<close> attempts for one page: every targeted language
  of the list (all of them if no language is requested, else the requested one), in
  order, with the outcome of \<^verbatim>\<open>page.publish\<close> for it; and the tables after them.
\<close>

fun publish_trace ::
  "cms_env \<Rightarrow> acting option \<Rightarrow> nat \<Rightarrow> string option \<Rightarrow> string list \<Rightarrow> cms_db \<Rightarrow>
     (string \<times> bool) list" where
  "publish_trace env acting pk language [] db = []"
| "publish_trace env acting pk language (lang # langs) db =
     (if language = None \<or> Some lang = language
      then (lang, snd (env_page_publish env acting db pk lang))
           # publish_trace env acting pk language langs (fst (env_page_publish env acting db pk lang))
      else publish_trace env acting pk language langs db)"

fun publish_db ::
  "cms_env \<Rightarrow> acting option \<Rightarrow> nat \<Rightarrow> string option \<Rightarrow> string list \<Rightarrow> cms_db \<Rightarrow> cms_db" where
  "publish_db env acting pk language [] db = db"
| "publish_db env acting pk language (lang # langs) db =
     (if language = None \<or> Some lang = language
      then publish_db env acting pk language langs (fst (env_page_publish env acting db pk lang))
      else publish_db env acting pk language langs db)"

text \<open>The same for a list of pages, one after the other: each page with its publications.\<close>

fun pages_trace ::
  "cms_env \<Rightarrow> acting option \<Rightarrow> bool \<Rightarrow> string option \<Rightarrow> page list \<Rightarrow> cms_db \<Rightarrow>
     (page \<times> (string \<times> bool) list) list" where
  "pages_trace env acting include_unpublished language [] db = []"
| "pages_trace env acting include_unpublished language (p # qs) db =
     (p, publish_trace env acting (page_pk p) language
           (title_languages include_unpublished db p) db)
     # pages_trace env acting include_unpublished language qs
         (publish_db env acting (page_pk p) language
            (title_languages include_unpublished db p) db)"

text \<open>
  The language of the first page/language combination that was published successfully,
  and the language of the first combination that was attempted (the first with a
  non-empty language code).
\<close>

definition first_published_language :: "(page \<times> (string \<times> bool) list) list \<Rightarrow> string option" where
  "first_published_language tr =
     (case filter snd (concat (map snd tr)) of [] \<Rightarrow> None | (lang, ok) # rest \<Rightarrow> Some lang)"

definition first_language :: "string list \<Rightarrow> string option" where
  "first_language langs = (case filter (\<lambda>l. l \<noteq> []) langs of [] \<Rightarrow> None | l # rest \<Rightarrow> Some l)"

definition first_attempted_language :: "(page \<times> (string \<times> bool) list) list \<Rightarrow> string option" where
  "first_attempted_language tr = first_language (map fst (concat (map snd tr)))"

text \<open>
  One step of \<^verbatim>\<open>if not output_language: output_language = lang\<close>.
\<close>

definition pick_language :: "string option \<Rightarrow> string \<Rightarrow> string option" where
  "pick_language out lang = (if \<not> truthy out then Some lang else out)"

text \<open>
  A plugin is a copy of another into a placeholder and a language if it lies there and
  has the type, the position, the model and the data of the other.
\<close>

definition is_copy_of :: "nat \<Rightarrow> string \<Rightarrow> plugin \<Rightarrow> plugin \<Rightarrow> bool" where
  "is_copy_of placeholder language new old \<longleftrightarrow>
     plugin_placeholder new = placeholder \<and> plugin_language new = language
     \<and> plugin_type new = plugin_type old \<and> plugin_position new = plugin_position old
     \<and> plugin_model new = plugin_model old \<and> plugin_data new = plugin_data old"

section \<open>Properties\<close>

lemmas sample_defs = sample_page_def sample_title_def sample_plugin_def sample_user_def
  sample_db_def sample_state_def sample_env_def sample_publish_def acting_name_def

lemmas add_plugin_defs = add_plugin_def verify_plugin_type_def place_plugin_def
  target_placement_def shift_positions_def save_plugin_def add_root_plugin_def move_plugin_def
  get_plugin_def fresh_pk_def

lemmas create_page_defs = create_page_def create_page_checks_def create_page_finish_def
  create_title_def default_slug_def resolve_site_def verify_revision_support_def
  verify_apphook_def check_app_name_def add_root_page_def move_page_def get_page_def
  drafts_with_reverse_id_def save_title_def create_revision_def page_publish_def fresh_pk_def
  generate_valid_slug_def sibling_titles_def title_page_parent_def


subsection \<open>Slug generator\<close>

lemma slug_loop_unused: "slug_loop used b slug i \<notin> set used"
proof (induction used b slug i rule: slug_loop.induct)
  case (1 used baseslug slug i)
  then show ?case
    by (subst slug_loop.simps) simp
qed

lemma slug_loop_stop: "slug \<notin> set used \<Longrightarrow> slug_loop used b slug i = slug"
  by (subst slug_loop.simps) simp

lemma slug_loop_step:
  "slug \<in> set used \<Longrightarrow> slug_loop used b slug i = slug_loop used b (slug_format b i) (i + 1)"
  by (subst slug_loop.simps) simp

lemma slug_format_news_1: "slug_format ''news'' 1 = ''news-1''"
  by code_simp

lemma slug_format_news_2: "slug_format ''news'' 2 = ''news-2''"
  by code_simp

lemma generate_valid_slug_loop:
  "generate_valid_slug slugify db source parent language =
     slug_loop (used_slugs db parent language) (slugify source) (slugify source) 1"
  by (simp add: generate_valid_slug_def used_slugs_def Let_def slug_loop_stop)

text \<open>
  Claim C1. The slug returned by \<^verbatim>\<open>generate_valid_slug\<close> is not the slug of any title
  of the language under the same parent. When the base slug is \<open>news\<close>, the call returns
  \<open>news\<close> while that is free, \<open>news-1\<close> once \<open>news\<close> is taken, and \<open>news-2\<close> once
  \<open>news\<close> and \<open>news-1\<close> are both taken: these are the results of successive calls, each
  result being stored as a sibling title before the next call.
\<close>

theorem generate_valid_slug_unique:
  "(\<forall>t \<in> set (sibling_titles db parent language).
       title_slug t \<noteq> generate_valid_slug slugify db source parent language)
   \<and> (slugify source = ''news'' \<longrightarrow>
        (''news'' \<notin> set (used_slugs db parent language) \<longrightarrow>
           generate_valid_slug slugify db source parent language = ''news'')
      \<and> (''news'' \<in> set (used_slugs db parent language)
          \<and> ''news-1'' \<notin> set (used_slugs db parent language) \<longrightarrow>
           generate_valid_slug slugify db source parent language = ''news-1'')
      \<and> (''news'' \<in> set (used_slugs db parent language)
          \<and> ''news-1'' \<in> set (used_slugs db parent language)
          \<and> ''news-2'' \<notin> set (used_slugs db parent language) \<longrightarrow>
           generate_valid_slug slugify db source parent language = ''news-2''))"
proof (intro conjI ballI impI)
  fix t assume "t \<in> set (sibling_titles db parent language)"
  then have "title_slug t \<in> set (used_slugs db parent language)"
    by (simp add: used_slugs_def)
  moreover have "generate_valid_slug slugify db source parent language
                   \<notin> set (used_slugs db parent language)"
    by (simp add: generate_valid_slug_loop slug_loop_unused)
  ultimately show "title_slug t \<noteq> generate_valid_slug slugify db source parent language"
    by metis
next
  assume "slugify source = ''news''" "''news'' \<notin> set (used_slugs db parent language)"
  then show "generate_valid_slug slugify db source parent language = ''news''"
    by (simp add: generate_valid_slug_loop slug_loop_stop)
next
  assume "slugify source = ''news''"
    "''news'' \<in> set (used_slugs db parent language)
       \<and> ''news-1'' \<notin> set (used_slugs db parent language)"
  then show "generate_valid_slug slugify db source parent language = ''news-1''"
    using slug_format_news_1
    by (simp add: generate_valid_slug_loop slug_loop_step slug_loop_stop)
next
  assume "slugify source = ''news''"
    "''news'' \<in> set (used_slugs db parent language)
       \<and> ''news-1'' \<in> set (used_slugs db parent language)
       \<and> ''news-2'' \<notin> set (used_slugs db parent language)"
  then show "generate_valid_slug slugify db source parent language = ''news-2''"
    using slug_format_news_1 slug_format_news_2
    by (simp add: generate_valid_slug_loop slug_loop_step slug_loop_stop numeral_2_eq_2)
qed

theorem generate_valid_slug_unique_witness:
  "generate_valid_slug (\<lambda>s. ''news'') (sample_db news_pages [] []) ''News''
       (Some (sample_page 1 None 1 None True)) ''en'' = ''news''
   \<and> generate_valid_slug (\<lambda>s. ''news'')
       (sample_db news_pages [sample_title 1 ''en'' ''news'' 2 True] []) ''News''
       (Some (sample_page 1 None 1 None True)) ''en'' = ''news-1''
   \<and> generate_valid_slug (\<lambda>s. ''news'')
       (sample_db news_pages
          [sample_title 1 ''en'' ''news'' 2 True, sample_title 2 ''en'' ''news-1'' 3 True] [])
       ''News'' (Some (sample_page 1 None 1 None True)) ''en'' = ''news-2''
   \<and> map title_slug (sibling_titles (sample_db news_pages
          [sample_title 1 ''en'' ''news'' 2 True, sample_title 2 ''en'' ''news-1'' 3 True] [])
          (Some (sample_page 1 None 1 None True)) ''en'') = [''news'', ''news-1'']"
  using generate_valid_slug_unique [of "sample_db news_pages [] []"
          "Some (sample_page 1 None 1 None True)" "''en''" "\<lambda>s. ''news''" "''News''"]
        generate_valid_slug_unique [of "sample_db news_pages [sample_title 1 ''en'' ''news'' 2 True] []"
          "Some (sample_page 1 None 1 None True)" "''en''" "\<lambda>s. ''news''" "''News''"]
        generate_valid_slug_unique [of "sample_db news_pages
          [sample_title 1 ''en'' ''news'' 2 True, sample_title 2 ''en'' ''news-1'' 3 True] []"
          "Some (sample_page 1 None 1 None True)" "''en''" "\<lambda>s. ''news''" "''News''"]
  by (simp add: used_slugs_def sibling_titles_def sample_db_def news_pages_def sample_page_def
        sample_title_def title_page_parent_def get_page_def)

text \<open>
  Three successive calls of \<^verbatim>\<open>create_title\<close> for three children of one page, each with
  the title \<open>news\<close> and no slug: the slug generator gives them the slugs \<open>news\<close>,
  \<open>news-1\<close> and \<open>news-2\<close>.
\<close>

lemma create_title_successive_slugs:
  "(case create_title sample_env (news_title_args 2) (sample_state (sample_db news_pages [] [])) of
      (t1, st1) \<Rightarrow>
        (case create_title sample_env (news_title_args 3) st1 of
           (t2, st2) \<Rightarrow>
             (case create_title sample_env (news_title_args 4) st2 of
                (t3, st3) \<Rightarrow>
                  [map_sum id title_slug t1, map_sum id title_slug t2, map_sum id title_slug t3])))
   = [Inr ''news'', Inr ''news-1'', Inr ''news-2'']"
  by code_simp

subsection \<open>Unsupported positions of a plugin\<close>

lemma place_plugin_target_unsupported:
  "ap_target a = Some t \<Longrightarrow>
   ap_position a \<notin> set [''last-child'', ''first-child'', ''left'', ''right''] \<Longrightarrow>
   place_plugin env a db = Inl (PositionNotSupported (ap_position a))"
  by (simp add: place_plugin_def target_placement_def)

lemma place_plugin_no_target_accepts: "ap_target a = None \<Longrightarrow> \<exists>r. place_plugin env a db = Inr r"
  by (simp add: place_plugin_def Let_def)

text \<open>
  Claim C2. \<^verbatim>\<open>add_plugin\<close> with the position \<open>bogus\<close> and no target does not fail: in a
  placeholder with one root plugin it stores the new plugin at position 0 and moves the
  existing plugin to position 1, as for \<open>first-child\<close>. With that plugin as the target the
  same position is rejected.
\<close>

theorem add_plugin_unsupported_position_accepted:
  "add_plugin sample_env (sample_plugin_args ''bogus'' None)
     (sample_db [] [] [sample_plugin 1 1 ''en'' 0 None [1]])
   = (Inr ((sample_plugin 2 1 ''en'' 0 None [2])),
      sample_db [] [] [sample_plugin 1 1 ''en'' 1 None [1], sample_plugin 2 1 ''en'' 0 None [2]])
   \<and> fst (add_plugin sample_env
            (sample_plugin_args ''bogus'' (Some (sample_plugin 1 1 ''en'' 0 None [1])))
            (sample_db [] [] [sample_plugin 1 1 ''en'' 0 None [1]]))
     = Inl (PositionNotSupported ''bogus'')"
  by (simp add: add_plugin_defs sample_defs sample_plugin_args_def Let_def)

subsection \<open>Apphooks and namespaces\<close>

lemma verify_apphook_string_needs_namespace:
  "map_of (env_apphooks env) name = Some app \<Longrightarrow> truthy (app_app_name app) \<Longrightarrow>
   \<not> truthy namespace \<Longrightarrow>
   verify_apphook env (ApphookString name) namespace = Inl ValidationError"
  by (auto simp: verify_apphook_def check_app_name_def dest: map_of_SomeD intro: rev_image_eqI)

lemma verify_apphook_instance_needs_namespace:
  "map_of (env_apphooks env) cls = Some app \<Longrightarrow> app_class app = cls \<Longrightarrow>
   truthy (app_app_name app) \<Longrightarrow> \<not> truthy namespace \<Longrightarrow>
   verify_apphook env (ApphookInstance cls) namespace = Inl ValidationError"
  by (auto simp: verify_apphook_def check_app_name_def dest: map_of_SomeD intro: rev_image_eqI)

text \<open>
  Claim C3. \<^verbatim>\<open>_verify_apphook\<close> returns the name of an apphook given as a class without
  looking at the pool or at the namespace. So \<^verbatim>\<open>create_page\<close> with the class of an
  application that declares an application name, and no namespace, creates the page and
  binds it to the application; the same application given as a string or as an instance
  is refused with a validation error.
\<close>

theorem create_page_apphook_class_unchecked:
  "verify_apphook env (ApphookClass c) None = Inr c
   \<and> map_sum id page_application_urls
       (fst (create_page sample_env (sample_page_args\<lparr>cp_apphook := Some (ApphookClass ''SampleApp'')\<rparr>)
          (sample_state (sample_db [] [] [])))) = Inr (Some ''SampleApp'')
   \<and> fst (create_page sample_env (sample_page_args\<lparr>cp_apphook := Some (ApphookString ''SampleApp'')\<rparr>)
          (sample_state (sample_db [] [] []))) = Inl ValidationError
   \<and> fst (create_page sample_env (sample_page_args\<lparr>cp_apphook := Some (ApphookInstance ''SampleApp'')\<rparr>)
          (sample_state (sample_db [] [] []))) = Inl ValidationError"
  by (simp add: create_page_defs sample_defs sample_page_args_def Let_def)

subsection \<open>Publishing one page\<close>

lemma find_SomeD: "find P xs = Some x \<Longrightarrow> P x \<and> x \<in> set xs"
  by (induction xs) (auto split: if_splits)

lemma get_page_SomeD: "get_page db k = Some p \<Longrightarrow> page_pk p = k \<and> p \<in> set (pages db)"
  unfolding get_page_def by (drule find_SomeD) simp

text \<open>
  Claim C6. For a stored page: if the user lacks the publish permission,
  \<^verbatim>\<open>publish_page\<close> raises \<^verbatim>\<open>PermissionDenied\<close> and the state is the one before the call,
  whatever the publish operation would do (it is not run); if the user holds the
  permission, the publish operation runs on the tables with the name of that user as the
  acting identity, the thread-local user is restored, and the page reloaded from the
  resulting tables is returned.
\<close>

theorem publish_page_permission:
  assumes "get_page (st_db st) (page_pk pg) = Some p1"
  shows "(\<not> env_has_publish_permission env (st_db st) p1 usr \<longrightarrow>
            (\<forall>f. publish_page (env\<lparr>env_page_publish := f\<rparr>) pg usr language st
                   = (Inl PermissionDenied, st)))
       \<and> (env_has_publish_permission env (st_db st) p1 usr \<longrightarrow>
            (case env_page_publish env (Some (ActingName (user_username usr))) (st_db st)
                    (page_pk pg) language of
               (db', ok) \<Rightarrow>
                 publish_page env pg usr language st
                   = (case get_page db' (page_pk pg) of
                        None \<Rightarrow> Inl DoesNotExist
                      | Some p \<Rightarrow> Inr p, st\<lparr>st_db := db'\<rparr>)))"
proof (intro conjI impI allI)
  fix f
  assume "\<not> env_has_publish_permission env (st_db st) p1 usr"
  with assms show "publish_page (env\<lparr>env_page_publish := f\<rparr>) pg usr language st
                   = (Inl PermissionDenied, st)"
    by (simp add: publish_page_def)
next
  assume perm: "env_has_publish_permission env (st_db st) p1 usr"
  have pk: "page_pk p1 = page_pk pg"
    using assms by (simp add: get_page_SomeD)
  show "case env_page_publish env (Some (ActingName (user_username usr))) (st_db st)
                    (page_pk pg) language of
               (db', ok) \<Rightarrow>
                 publish_page env pg usr language st
                   = (case get_page db' (page_pk pg) of
                        None \<Rightarrow> Inl DoesNotExist
                      | Some p \<Rightarrow> Inr p, st\<lparr>st_db := db'\<rparr>)"
    using assms perm pk
    by (auto simp: publish_page_def current_user_def page_publish_def Let_def
             split: prod.splits option.splits)
qed

theorem publish_page_permission_witness:
  "get_page (st_db home_state) 1 = Some (sample_page 1 None 1 None True)
   \<and> publish_page sample_env (sample_page 1 None 1 None True) (sample_user 7 ''visitor'') ''en'' home_state
      = (Inl PermissionDenied, home_state)
   \<and> publish_page sample_env (sample_page 1 None 1 None True) (sample_user 8 ''editor'') ''en'' home_state
      = (Inr ((sample_page 1 None 1 None True)\<lparr>page_changed_by := ''editor''\<rparr>),
         sample_state (sample_db [(sample_page 1 None 1 None True)\<lparr>page_changed_by := ''editor''\<rparr>]
           [sample_title 1 ''en'' ''home'' 1 True] []))"
  using publish_page_permission [of home_state "sample_page 1 None 1 None True"
          "sample_page 1 None 1 None True" sample_env "sample_user 7 ''visitor''" "''en''"]
        publish_page_permission [of home_state "sample_page 1 None 1 None True"
          "sample_page 1 None 1 None True" sample_env "sample_user 8 ''editor''" "''en''"]
  by (simp add: home_state_def sample_defs get_page_def)

subsection \<open>Page users\<close>

lemma in_stored_user_pks:
  "k \<in> set (stored_user_pks db) \<longleftrightarrow> (\<exists>r \<in> set (users db). user_pk r = Some k)"
  by (force simp: stored_user_pks_def List.map_filter_def)

lemma save_user_stored: "fst (save_user u db) \<in> set (users (snd (save_user u db)))"
  by (auto simp: save_user_def Let_def in_stored_user_pks split: option.splits)

lemma save_user_fields:
  "fst (save_user u db) = u\<lparr>user_pk := user_pk (fst (save_user u db))\<rparr>
   \<and> (user_pk u = None \<or> fst (save_user u db) = u)
   \<and> user_pk (fst (save_user u db)) \<noteq> None"
  by (cases "user_pk u") (auto simp: save_user_def Let_def)

lemma save_user_keeps:
  "u' \<in> set (users db) \<Longrightarrow> user_pk u = None \<or> u' = u \<Longrightarrow>
   u' \<in> set (users (snd (save_user u db)))"
  by (cases "user_pk u") (auto simp: save_user_def Let_def)

lemma save_user_page_users: "page_users (snd (save_user u db)) = page_users db"
  by (auto simp: save_user_def Let_def split: option.splits)

lemma create_page_user_grant_all:
  "create_page_user env created_by usr flags True db
     = create_page_user env created_by usr all_flags False db"
  by (subst create_page_user.simps) simp

lemma create_page_user_body:
  "create_page_user env (CreatorUser c) usr flags False db =
     (let usr1 = usr\<lparr>user_is_staff := True, user_is_active := True\<rparr>;
          s1 = save_user usr1 db;
          s2 = save_page_user \<lparr>pu_user = usr1, pu_created_by = user_pk c\<rparr> (snd s1)
      in (Inr (fst s1),
          (snd s2)\<lparr>user_permissions :=
             env_save_permissions env (permission_data flags) (user_pk (pu_user (fst s2)))
               (user_permissions (snd s2))\<rparr>))"
  by (subst create_page_user.simps) (simp add: Let_def split: prod.splits)

lemma create_page_user_not_user:
  "create_page_user env (CreatorName n) usr flags grant_all db = (Inl AssertionError, db)"
  by (cases grant_all) (simp_all add: create_page_user_grant_all, (subst create_page_user.simps, simp)+)

text \<open>
  Claim C10. For a creator that is a user object, whatever the permission flags and
  \<^verbatim>\<open>grant_all\<close>: \<^verbatim>\<open>create_page_user\<close> returns the user it was given with \<^verbatim>\<open>is_staff\<close>
  and \<^verbatim>\<open>is_active\<close> set (and with a key, the one it had if it had one), that user is
  stored in the user table, and the page user table holds a record of the creator whose
  user fields are those of the user with both flags set. The result is the user, not the
  page user record.
\<close>

theorem create_page_user_returns_user:
  "\<exists>u' db'. create_page_user env (CreatorUser c) usr flags grant_all db = (Inr u', db')
      \<and> u' = usr\<lparr>user_is_staff := True, user_is_active := True, user_pk := user_pk u'\<rparr>
      \<and> (user_pk usr = None \<or> user_pk u' = user_pk usr)
      \<and> u' \<in> set (users db')
      \<and> (\<exists>pu \<in> set (page_users db').
            pu_created_by pu = user_pk c
            \<and> pu_user pu = usr\<lparr>user_is_staff := True, user_is_active := True,
                                  user_pk := user_pk (pu_user pu)\<rparr>
            \<and> (user_pk usr = None \<or> pu_user pu = u'))"
proof -
  define usr1 where "usr1 = usr\<lparr>user_is_staff := True, user_is_active := True\<rparr>"
  define s1 where "s1 = save_user usr1 db"
  define s2 where "s2 = save_page_user \<lparr>pu_user = usr1, pu_created_by = user_pk c\<rparr> (snd s1)"
  define s3 where "s3 = save_user usr1 (snd s1)"
  have body: "\<And>f. create_page_user env (CreatorUser c) usr f False db =
     (Inr (fst s1), (snd s2)\<lparr>user_permissions :=
             env_save_permissions env (permission_data f) (user_pk (pu_user (fst s2)))
               (user_permissions (snd s2))\<rparr>)"
    by (simp add: create_page_user_body Let_def usr1_def s1_def s2_def)
  have s2_eq: "s2 = (\<lparr>pu_user = fst s3, pu_created_by = user_pk c\<rparr>,
        (snd s3)\<lparr>page_users := filter (\<lambda>r. user_pk (pu_user r) \<noteq> user_pk (fst s3))
                                 (page_users (snd s3))
                               @ [\<lparr>pu_user = fst s3, pu_created_by = user_pk c\<rparr>]\<rparr>)"
    by (simp add: s2_def s3_def save_page_user_def Let_def split: prod.splits)
  have f1: "fst s1 = usr1\<lparr>user_pk := user_pk (fst s1)\<rparr>"
    and f1': "user_pk usr1 = None \<or> fst s1 = usr1"
    using save_user_fields [of usr1 db] by (simp_all add: s1_def)
  have f3: "fst s3 = usr1\<lparr>user_pk := user_pk (fst s3)\<rparr>"
    and f3': "user_pk usr1 = None \<or> fst s3 = usr1"
    using save_user_fields [of usr1 "snd s1"] by (simp_all add: s3_def)
  have in1: "fst s1 \<in> set (users (snd s1))"
    by (simp add: s1_def save_user_stored)
  have in3: "fst s1 \<in> set (users (snd s3))"
    unfolding s3_def using in1 f1' by (intro save_user_keeps) auto
  have pk: "user_pk usr1 = user_pk usr" by (simp add: usr1_def)
  have res: "\<And>f. \<exists>u' db'. create_page_user env (CreatorUser c) usr f False db = (Inr u', db')
      \<and> u' = usr\<lparr>user_is_staff := True, user_is_active := True, user_pk := user_pk u'\<rparr>
      \<and> (user_pk usr = None \<or> user_pk u' = user_pk usr)
      \<and> u' \<in> set (users db')
      \<and> (\<exists>pu \<in> set (page_users db').
            pu_created_by pu = user_pk c
            \<and> pu_user pu = usr\<lparr>user_is_staff := True, user_is_active := True,
                                  user_pk := user_pk (pu_user pu)\<rparr>
            \<and> (user_pk usr = None \<or> pu_user pu = u'))"
  proof -
    fix f
    show "?thesis f"
      apply (rule exI [of _ "fst s1"])
      apply (rule exI)
      apply (intro conjI)
          apply (rule body)
      using f1 apply (simp add: usr1_def)
      using f1' pk apply auto[1]
      using in3 apply (simp add: s2_eq)
      apply (rule bexI [of _ "\<lparr>pu_user = fst s3, pu_created_by = user_pk c\<rparr>"])
      using f3 f3' f1' pk apply (auto simp: usr1_def s2_eq)
      done
  qed
  show ?thesis
    by (cases grant_all) (simp_all add: create_page_user_grant_all res)
qed




theorem create_page_user_returns_user_witness:
  "create_page_user sample_env (CreatorUser (sample_user 1 ''admin'')) (sample_user 2 ''bob'')
      all_flags True users_db
   = (Inr ((sample_user 2 ''bob'')\<lparr>user_is_staff := True, user_is_active := True\<rparr>),
      users_db\<lparr>users := [sample_user 1 ''admin'',
                  (sample_user 2 ''bob'')\<lparr>user_is_staff := True, user_is_active := True\<rparr>],
               page_users := [\<lparr>pu_user = (sample_user 2 ''bob'')\<lparr>user_is_staff := True, user_is_active := True\<rparr>,
                               pu_created_by = Some 1\<rparr>]\<rparr>)"
  using create_page_user_returns_user [of sample_env "sample_user 1 ''admin''" "sample_user 2 ''bob''" all_flags True users_db]
  by (simp add: create_page_user_grant_all create_page_user_body save_user_def save_page_user_def
        stored_user_pks_def List.map_filter_def users_db_def sample_defs Let_def)

subsection \<open>Reverse identifiers\<close>

lemma fold_max_ge: "k \<in> set ks \<Longrightarrow> k \<le> fold max ks (m::nat)"
proof (induction ks arbitrary: m)
  case Nil
  then show ?case by simp
next
  case (Cons a ks)
  have mono: "\<And>m. m \<le> fold max ks (m::nat)"
  proof -
    fix m :: nat show "m \<le> fold max ks m"
      by (induction ks arbitrary: m) (auto intro: order_trans [OF max.cobounded2])
  qed
  from Cons show ?case
    by (auto intro: order_trans [OF max.cobounded1 mono])
qed

lemma fresh_pk_notin: "fresh_pk ks \<notin> set ks"
  using fold_max_ge [of "fresh_pk ks" ks 0] by (auto simp: fresh_pk_def)

lemma find_append_new:
  "\<forall>x \<in> set xs. \<not> P x \<Longrightarrow> P y \<Longrightarrow> find P (xs @ [y]) = Some y"
  by (induction xs) auto

lemma add_root_page_get:
  "add_root_page env p db = (p', db') \<Longrightarrow>
   get_page db' (page_pk p') = Some p' \<and> page_pk p' \<notin> set (map page_pk (pages db))
   \<and> page_reverse_id p' = page_reverse_id p \<and> page_site p' = page_site p"
proof -
  assume a: "add_root_page env p db = (p', db')"
  have fresh: "\<forall>x \<in> set (pages db). page_pk x \<noteq> fresh_pk (map page_pk (pages db))"
    using fresh_pk_notin [of "map page_pk (pages db)"] by force
  have "find (\<lambda>q. page_pk q = page_pk p') (pages db @ [p']) = Some p'"
    using a fresh by (intro find_append_new) (auto simp: add_root_page_def Let_def)
  with a fresh show ?thesis
    by (auto simp: add_root_page_def Let_def get_page_def)
qed

lemma find_map_update:
  "(\<And>x. P (f x) = P x) \<Longrightarrow> find P (map f xs) = map_option f (find P xs)"
  by (induction xs) auto

lemma move_page_get:
  "get_page db (page_pk p) = Some p1 \<Longrightarrow>
   \<exists>p2 db'. move_page env p target pos db = (Inr p2, db') \<and> get_page db' (page_pk p) = Some p2
      \<and> page_pk p2 = page_pk p
      \<and> page_reverse_id p2 = page_reverse_id p1 \<and> page_site p2 = page_site p1"
  using get_page_SomeD [of db "page_pk p" p1]
  by (simp add: move_page_def Let_def get_page_def find_map_update)

lemma create_title_keeps_pages:
  "ct_language a \<in> set (env_language_list env (page_site (ct_page a))) \<Longrightarrow> \<not> ct_with_revision a \<Longrightarrow>
   \<exists>t st'. create_title env a st = (Inr t, st') \<and> pages (st_db st') = pages (st_db st)"
  by (auto simp: create_title_def Let_def save_title_def split: option.splits)

lemma get_page_cong: "pages db' = pages db \<Longrightarrow> get_page db' k = get_page db k"
  by (simp add: get_page_def)

lemma create_page_checks_site:
  "create_page_checks env a db = Inr (site, slug, parent, parent_id, app) \<Longrightarrow>
   site = resolve_site env (cp_site a) \<and> cp_language a \<in> set (env_language_list env site)"
  by (auto simp: create_page_checks_def Let_def split: if_splits sum.splits option.splits)


lemma create_page_finish_ok:
  assumes g: "get_page (st_db st) (page_pk p0) = Some p0"
      and lang: "cp_language a \<in> set (env_language_list env (page_site p0))"
      and pub: "cp_published a \<longrightarrow> publish_keeps_page env"
  shows "\<exists>p st'. create_page_finish env a slug parent p0 st = (Inr p, st')
           \<and> page_pk p = page_pk p0 \<and> page_reverse_id p = page_reverse_id p0
           \<and> page_site p = page_site p0 \<and> get_page (st_db st') (page_pk p0) = Some p"
proof -
  obtain p1 st1 where
    m: "(case parent of
           None \<Rightarrow> (Inr p0, st)
         | Some par \<Rightarrow>
             (case move_page env p0 par (cp_position a) (st_db st) of
                (r, db') \<Rightarrow> (r, st\<lparr>st_db := db'\<rparr>))) = (Inr p1, st1)"
    and g1: "get_page (st_db st1) (page_pk p0) = Some p1"
    and f1: "page_pk p1 = page_pk p0" "page_reverse_id p1 = page_reverse_id p0"
            "page_site p1 = page_site p0"
  proof (cases parent)
    case None
    with g that [of p0 st] show ?thesis by simp
  next
    case (Some par)
    from move_page_get [OF g, of env par "cp_position a"]
    obtain p2 db' where "move_page env p0 par (cp_position a) (st_db st) = (Inr p2, db')"
      "get_page db' (page_pk p0) = Some p2" "page_pk p2 = page_pk p0"
      "page_reverse_id p2 = page_reverse_id p0" "page_site p2 = page_site p0"
      by blast
    with Some that [of p2 "st\<lparr>st_db := db'\<rparr>"] show ?thesis by simp
  qed
  let ?targs = "\<lparr>ct_language = cp_language a, ct_title = cp_title a, ct_page = p1,
                   ct_menu_title = cp_menu_title a, ct_slug = Some slug,
                   ct_redirect = cp_redirect a, ct_meta_description = cp_meta_description a,
                   ct_parent = None, ct_overwrite_url = cp_overwrite_url a,
                   ct_with_revision = False\<rparr>"
  have "ct_language ?targs \<in> set (env_language_list env (page_site (ct_page ?targs)))"
    using lang f1 by simp
  moreover have "\<not> ct_with_revision ?targs" by simp
  ultimately have "\<exists>t st'. create_title env ?targs st1 = (Inr t, st')
                     \<and> pages (st_db st') = pages (st_db st1)"
    by (rule create_title_keeps_pages)
  then obtain t st2 where t: "create_title env ?targs st1 = (Inr t, st2)"
    and pg2: "pages (st_db st2) = pages (st_db st1)"
    by blast
  have g2: "get_page (st_db st2) (page_pk p0) = Some p1"
    using g1 get_page_cong [OF pg2] by simp
  define st3 where "st3 = (if cp_published a
                          then snd (page_publish env (page_pk p1) (cp_language a) st2)
                          else st2)"
  obtain p3 where g3: "get_page (st_db st3) (page_pk p0) = Some p3"
    and f3: "page_reverse_id p3 = page_reverse_id p0" "page_site p3 = page_site p0"
  proof (cases "cp_published a")
    case False
    with g2 f1 that [of p1] show ?thesis by (simp add: st3_def)
  next
    case True
    with pub have "publish_keeps_page env" by simp
    with g2 obtain p' where
      "get_page (fst (env_page_publish env (st_thread_user st2) (st_db st2) (page_pk p0)
                        (cp_language a))) (page_pk p0) = Some p'"
      "page_reverse_id p' = page_reverse_id p1" "page_site p' = page_site p1"
      unfolding publish_keeps_page_def by blast
    with True f1 that [of p'] show ?thesis
      by (simp add: st3_def page_publish_def split_beta)
  qed
  have pk3: "page_pk p3 = page_pk p0"
    using g3 by (simp add: get_page_SomeD)
  define st5 where "st5 = (if cp_with_revision a
                          then create_revision (page_pk p1) (st_thread_user st3)
                                 (Some (env_revision_initial_comment env)) st3
                          else st3)\<lparr>st_thread_user := None\<rparr>"
  have db5: "st_db st5 = st_db st3"
    by (simp add: st5_def create_revision_def)
  have "create_page_finish env a slug parent p0 st
          = (case get_page (st_db st5) (page_pk p1) of
               None \<Rightarrow> (Inl DoesNotExist, st5)
             | Some p \<Rightarrow> (Inr p, st5))"
    unfolding create_page_finish_def m st5_def st3_def by (simp add: t Let_def)
  with g3 f1 db5 have "create_page_finish env a slug parent p0 st = (Inr p3, st5)"
    by simp
  with g3 f3 pk3 db5 show ?thesis by simp
qed


text \<open>
  Claim C4. Let a reverse identifier be given (a non-empty string) and let the site be the
  one given or else the current one. If a draft page of that site already carries the
  identifier, \<^verbatim>\<open>create_page\<close> ends in an error and leaves the tables as they were, and the
  error is \<^verbatim>\<open>FieldError\<close> whenever the validations before the check pass. If no draft page
  of that site carries it, whatever the pages of other sites, and the validations pass,
  the page is created with the identifier on that site and is returned (when the page is
  to be published, provided that publishing keeps the page).
\<close>

theorem create_page_reverse_id_conflict:
  assumes rid: "cp_reverse_id a = Some r" "r \<noteq> []"
      and site: "site = resolve_site env (cp_site a)"
  shows "(drafts_with_reverse_id (st_db st) r site \<noteq> [] \<longrightarrow>
            (\<exists>e. fst (create_page env a st) = Inl e)
          \<and> st_db (snd (create_page env a st)) = st_db st
          \<and> ((\<exists>v. create_page_checks env a (st_db st) = Inr v) \<longrightarrow>
               fst (create_page env a st) = Inl FieldError))
       \<and> (drafts_with_reverse_id (st_db st) r site = []
          \<and> (\<exists>v. create_page_checks env a (st_db st) = Inr v)
          \<and> (cp_published a \<longrightarrow> publish_keeps_page env) \<longrightarrow>
            (\<exists>p. fst (create_page env a st) = Inr p
                \<and> page_reverse_id p = Some r \<and> page_site p = site
                \<and> page_pk p \<notin> set (map page_pk (pages (st_db st)))
                \<and> get_page (st_db (snd (create_page env a st))) (page_pk p) = Some p))"
proof (intro conjI impI)
  assume c: "drafts_with_reverse_id (st_db st) r site \<noteq> []"
  show "\<exists>e. fst (create_page env a st) = Inl e"
  proof (cases "create_page_checks env a (st_db st)")
    case (Inl e)
    then show ?thesis by (simp add: create_page_def)
  next
    case (Inr v)
    obtain s sl pa pid app where v: "v = (s, sl, pa, pid, app)" by (cases v) auto
    with Inr create_page_checks_site [of env a "st_db st" s sl pa pid app] site
    have "s = site" by simp
    with Inr v c rid show ?thesis
      by (simp add: create_page_def Let_def split: creator.splits)
  qed
  show "st_db (snd (create_page env a st)) = st_db st"
  proof (cases "create_page_checks env a (st_db st)")
    case (Inl e)
    then show ?thesis by (simp add: create_page_def)
  next
    case (Inr v)
    obtain s sl pa pid app where v: "v = (s, sl, pa, pid, app)" by (cases v) auto
    with Inr create_page_checks_site [of env a "st_db st" s sl pa pid app] site
    have "s = site" by simp
    with Inr v c rid show ?thesis
      by (simp add: create_page_def Let_def split: creator.splits)
  qed
  assume "\<exists>v. create_page_checks env a (st_db st) = Inr v"
  then obtain v where Inr: "create_page_checks env a (st_db st) = Inr v" ..
  obtain s sl pa pid app where v: "v = (s, sl, pa, pid, app)" by (cases v) auto
  with Inr create_page_checks_site [of env a "st_db st" s sl pa pid app] site
  have "s = site" by simp
  with Inr v c rid show "fst (create_page env a st) = Inl FieldError"
    by (simp add: create_page_def Let_def split: creator.splits)
next
  assume h: "drafts_with_reverse_id (st_db st) r site = []
          \<and> (\<exists>v. create_page_checks env a (st_db st) = Inr v)
          \<and> (cp_published a \<longrightarrow> publish_keeps_page env)"
  then obtain v where Inr: "create_page_checks env a (st_db st) = Inr v" by blast
  obtain s sl pa pid app where v: "v = (s, sl, pa, pid, app)" by (cases v) auto
  with Inr create_page_checks_site [of env a "st_db st" s sl pa pid app] site
  have s: "s = site" and lang: "cp_language a \<in> set (env_language_list env site)" by auto
  define tu where "tu = (case cp_created_by a of
                   CreatorUser u \<Rightarrow> Some (ActingUser u) | CreatorName n \<Rightarrow> None)"
  define cb where "cb = (case cp_created_by a of
                   CreatorUser u \<Rightarrow> user_username u | CreatorName n \<Rightarrow> n)"
  define page0 where "page0 =
                  \<lparr>page_pk = 0,
                   page_created_by = cb,
                   page_changed_by = cb,
                   page_parent_id = pid,
                   page_publication_date = cp_publication_date a,
                   page_publication_end_date = cp_publication_end_date a,
                   page_in_navigation = cp_in_navigation a,
                   page_soft_root = cp_soft_root a,
                   page_reverse_id = cp_reverse_id a,
                   page_navigation_extenders = cp_navigation_extenders a,
                   page_template = cp_template a,
                   page_application_urls = app,
                   page_application_namespace = cp_apphook_namespace a,
                   page_site = site,
                   page_login_required = cp_login_required a,
                   page_limit_visibility_in_menu = cp_limit_visibility_in_menu a,
                   page_xframe_options = cp_xframe_options a,
                   page_publisher_is_draft = True,
                   page_path = [],
                   page_placeholders = []\<rparr>"
  obtain p1 db1 where ar: "add_root_page env page0 (st_db st) = (p1, db1)"
    by (cases "add_root_page env page0 (st_db st)")
  from add_root_page_get [OF ar]
  have g1: "get_page db1 (page_pk p1) = Some p1"
    and new: "page_pk p1 \<notin> set (map page_pk (pages (st_db st)))"
    and f1: "page_reverse_id p1 = Some r" "page_site p1 = site"
    using rid by (simp_all add: page0_def)
  have cp: "create_page env a st
              = create_page_finish env a sl pa p1 (st\<lparr>st_thread_user := tu, st_db := db1\<rparr>)"
    using Inr v s h rid ar
    by (simp add: create_page_def Let_def tu_def cb_def page0_def split: creator.splits)
  from create_page_finish_ok [of "st\<lparr>st_thread_user := tu, st_db := db1\<rparr>" p1 a env sl pa]
    g1 lang f1 h
  obtain p st' where
    fin: "create_page_finish env a sl pa p1 (st\<lparr>st_thread_user := tu, st_db := db1\<rparr>) = (Inr p, st')"
    and fp: "page_pk p = page_pk p1" "page_reverse_id p = page_reverse_id p1"
            "page_site p = page_site p1" "get_page (st_db st') (page_pk p1) = Some p"
    by auto
  show "\<exists>p. fst (create_page env a st) = Inr p
                \<and> page_reverse_id p = Some r \<and> page_site p = site
                \<and> page_pk p \<notin> set (map page_pk (pages (st_db st)))
                \<and> get_page (st_db (snd (create_page env a st))) (page_pk p) = Some p"
    using cp fin fp f1 new by auto
qed


lemma sample_publish_keeps_page: "publish_keeps_page sample_env"
proof -
  have "\<And>acting (db::cms_db) k language p. get_page db k = Some p \<Longrightarrow>
        \<exists>p'. get_page (fst (sample_publish acting db k language)) k = Some p'
              \<and> page_reverse_id p' = page_reverse_id p \<and> page_site p' = page_site p"
  proof -
    fix acting and db :: cms_db and k language p
    assume g: "get_page db k = Some p"
    have "find (\<lambda>q. page_pk q = k)
            (map (\<lambda>q. if page_pk q = k then q\<lparr>page_changed_by := acting_name acting\<rparr> else q) (pages db))
          = map_option (\<lambda>q. if page_pk q = k then q\<lparr>page_changed_by := acting_name acting\<rparr> else q)
              (find (\<lambda>q. page_pk q = k) (pages db))"
      by (rule find_map_update) simp
    with g show "\<exists>p'. get_page (fst (sample_publish acting db k language)) k = Some p'
              \<and> page_reverse_id p' = page_reverse_id p \<and> page_site p' = page_site p"
      by (auto simp: sample_publish_def get_page_def)
  qed
  then show ?thesis
    by (simp add: publish_keeps_page_def sample_env_def)
qed

lemmas create_page_checks_defs = create_page_checks_def resolve_site_def default_slug_def
  generate_valid_slug_def sibling_titles_def verify_revision_support_def verify_apphook_def
  check_app_name_def get_page_def

theorem create_page_reverse_id_conflict_witness:
  "fst (create_page sample_env (sample_page_args\<lparr>cp_reverse_id := Some ''home''\<rparr>) reverse_state)
     = Inl FieldError
   \<and> st_db (snd (create_page sample_env (sample_page_args\<lparr>cp_reverse_id := Some ''home''\<rparr>)
                   reverse_state)) = st_db reverse_state
   \<and> (\<exists>p. fst (create_page sample_env
                   (sample_page_args\<lparr>cp_reverse_id := Some ''home'', cp_site := Some 2,
                                       cp_published := True\<rparr>) reverse_state) = Inr p
          \<and> page_reverse_id p = Some ''home'' \<and> page_site p = 2)"
proof -
  let ?a1 = "sample_page_args\<lparr>cp_reverse_id := Some ''home''\<rparr>"
  let ?a2 = "sample_page_args\<lparr>cp_reverse_id := Some ''home'', cp_site := Some 2,
                                cp_published := True\<rparr>"
  have rid: "cp_reverse_id ?a1 = Some ''home''" "cp_reverse_id ?a2 = Some ''home''"
    "''home'' \<noteq> []"
    by simp_all
  have site1: "1 = resolve_site sample_env (cp_site ?a1)"
    by (simp add: resolve_site_def sample_env_def sample_page_args_def)
  have site2: "2 = resolve_site sample_env (cp_site ?a2)"
    by (simp add: resolve_site_def)
  have taken: "drafts_with_reverse_id (st_db reverse_state) ''home'' 1 \<noteq> []"
    by (simp add: drafts_with_reverse_id_def reverse_state_def sample_defs)
  have free: "drafts_with_reverse_id (st_db reverse_state) ''home'' 2 = []"
    by (simp add: drafts_with_reverse_id_def reverse_state_def sample_defs)
  have checks1: "\<exists>v. create_page_checks sample_env ?a1 (st_db reverse_state) = Inr v"
    by (simp add: create_page_checks_defs reverse_state_def sample_page_args_def sample_defs Let_def)
  have checks2: "\<exists>v. create_page_checks sample_env ?a2 (st_db reverse_state) = Inr v"
    by (simp add: create_page_checks_defs reverse_state_def sample_page_args_def sample_defs Let_def)
  from create_page_reverse_id_conflict [OF rid(1) rid(3) site1, of reverse_state] taken checks1
  have one: "fst (create_page sample_env ?a1 reverse_state) = Inl FieldError"
    "st_db (snd (create_page sample_env ?a1 reverse_state)) = st_db reverse_state"
    by blast+
  from create_page_reverse_id_conflict [OF rid(2) rid(3) site2, of reverse_state] free checks2
    sample_publish_keeps_page
  have two: "\<exists>p. fst (create_page sample_env ?a2 reverse_state) = Inr p
          \<and> page_reverse_id p = Some ''home'' \<and> page_site p = 2"
    by blast
  from one two show ?thesis by blast
qed

subsection \<open>Inserting a plugin first\<close>

lemma shift_positions_find:
  "distinct (map plugin_pk qs) \<Longrightarrow>
   shift_positions qs db =
     db\<lparr>plugins := map (\<lambda>r. case find (\<lambda>q. plugin_pk q = plugin_pk r) qs of
                                 None \<Rightarrow> r | Some q \<Rightarrow> shifted q) (plugins db)\<rparr>"
proof (induction qs arbitrary: db)
  case Nil
  then show ?case by (simp add: shift_positions_def)
next
  case (Cons q qs)
  have step: "shift_positions (q # qs) db = shift_positions qs (save_plugin (shifted q) db)"
    by (simp add: shift_positions_def shifted_def)
  have none: "find (\<lambda>q'. plugin_pk q' = plugin_pk q) qs = None"
    using Cons.prems by (force simp: find_None_iff image_iff)
  have "map (\<lambda>r. case find (\<lambda>q'. plugin_pk q' = plugin_pk r) qs of
                   None \<Rightarrow> r | Some q' \<Rightarrow> shifted q')
          (map (\<lambda>r. if plugin_pk r = plugin_pk (shifted q) then shifted q else r) (plugins db))
        = map (\<lambda>r. case find (\<lambda>q'. plugin_pk q' = plugin_pk r) (q # qs) of
                     None \<Rightarrow> r | Some q' \<Rightarrow> shifted q') (plugins db)"
    using none by (auto simp: shifted_def)
  with Cons show ?case
    by (simp add: step save_plugin_def)
qed

lemma find_filter_distinct:
  "distinct (map f xs) \<Longrightarrow> x \<in> set xs \<Longrightarrow>
   find (\<lambda>q. f q = f x) (filter P xs) = (if P x then Some x else None)"
proof (induction xs)
  case Nil
  then show ?case by simp
next
  case (Cons y ys)
  then show ?case
    by (auto simp: find_None_iff image_iff)
qed

lemma shift_positions_filter:
  assumes "distinct (map plugin_pk (plugins db))"
  shows "shift_positions (filter P (plugins db)) db =
           db\<lparr>plugins := map (\<lambda>r. if P r then shifted r else r) (plugins db)\<rparr>"
proof -
  have d: "distinct (map plugin_pk (filter P (plugins db)))"
    using assms by (simp add: distinct_map_filter)
  have "map (\<lambda>r. case find (\<lambda>q. plugin_pk q = plugin_pk r) (filter P (plugins db)) of
                   None \<Rightarrow> r | Some q \<Rightarrow> shifted q) (plugins db)
        = map (\<lambda>r. if P r then shifted r else r) (plugins db)"
    using assms by (intro map_cong refl) (simp add: find_filter_distinct)
  with shift_positions_find [OF d, of db] show ?thesis by simp
qed


lemma root_sibling_shifted: "root_sibling a (shifted pl) = root_sibling a pl"
  by (simp add: root_sibling_def shifted_def)

lemma filter_root_shifted:
  "filter (root_sibling a) (map (\<lambda>r. if root_sibling a r then shifted r else r) rows)
     = map shifted (filter (root_sibling a) rows)"
  by (induction rows) (auto simp: root_sibling_shifted)

lemma place_plugin_first:
  assumes "ap_target a = None" "ap_position a \<noteq> ''last-child''"
      and "distinct (map plugin_pk (plugins db))"
  shows "place_plugin env a db =
           Inr (ap_position a, 0, None,
                db\<lparr>plugins := map (\<lambda>r. if root_sibling a r then shifted r else r) (plugins db)\<rparr>)"
  using assms by (simp add: place_plugin_def Let_def shift_positions_filter root_sibling_def)

text \<open>
  Claim C5. In tables whose plugin keys are distinct, \<^verbatim>\<open>add_plugin\<close> with the position
  \<open>first-child\<close>, no target and a valid plugin type returns a new plugin at position 0
  among the root-level plugins of the placeholder and the language; the plugin table
  afterwards is the table before, in which exactly those root-level plugins are one
  position further and every other row is as it was, followed by the new plugin. If the
  \<open>N\<close> existing root-level plugins were at the positions \<open>0, \<dots>, N - 1\<close>, they are then at
  the positions \<open>1, \<dots>, N\<close>.
\<close>

theorem add_plugin_first_child:
  assumes "ap_target a = None" and "ap_position a = ''first-child''"
      and "verify_plugin_type env (ap_plugin_type a) = Inr (model, ptype)"
      and "distinct (map plugin_pk (plugins db))"
  shows "\<exists>new. add_plugin env a db
                 = (Inr new,
                    db\<lparr>plugins := map (\<lambda>r. if root_sibling a r then shifted r else r) (plugins db)
                                   @ [new]\<rparr>)
           \<and> plugin_position new = 0 \<and> root_sibling a new
           \<and> plugin_pk new \<notin> set (map plugin_pk (plugins db))
           \<and> (mset (map plugin_position (filter (root_sibling a) (plugins db))) = mset [0..<N] \<longrightarrow>
                mset (map plugin_position (filter (root_sibling a)
                        (map (\<lambda>r. if root_sibling a r then shifted r else r) (plugins db))))
                  = mset [1..<Suc N])"
proof -
  define rows where "rows = map (\<lambda>r. if root_sibling a r then shifted r else r) (plugins db)"
  define node where "node =
     \<lparr>plugin_pk = 0, plugin_type = ptype,
      plugin_placeholder = ap_placeholder a, plugin_position = 0,
      plugin_language = ap_language a, plugin_parent_id = None,
      plugin_path = [], plugin_model = None, plugin_data = []\<rparr>
     \<lparr>plugin_pk := fresh_pk (map plugin_pk rows),
      plugin_path := env_new_root_path env (map plugin_path rows)\<rparr>"
  define new where "new = node\<lparr>plugin_model := Some model, plugin_data := ap_data a\<rparr>"
  have place: "place_plugin env a db = Inr (ap_position a, 0, None, db\<lparr>plugins := rows\<rparr>)"
    unfolding rows_def using assms by (intro place_plugin_first) simp_all
  have pks: "map plugin_pk rows = map plugin_pk (plugins db)"
    unfolding rows_def map_map by (intro map_cong refl) (simp add: shifted_def)
  have pk_new: "plugin_pk new = fresh_pk (map plugin_pk rows)" "plugin_pk node = plugin_pk new"
    by (simp_all add: new_def node_def)
  have fresh: "plugin_pk new \<notin> set (map plugin_pk rows)"
    unfolding pk_new by (rule fresh_pk_notin)
  have keep: "map (\<lambda>r. if plugin_pk r = plugin_pk new then new else r) rows = rows"
  proof (rule map_idI)
    fix x assume "x \<in> set rows"
    then have "plugin_pk x \<in> set (map plugin_pk rows)" by simp
    with fresh have "plugin_pk x \<noteq> plugin_pk new" by metis
    then show "(if plugin_pk x = plugin_pk new then new else x) = x" by simp
  qed
  have ar: "add_root_plugin env
               \<lparr>plugin_pk = 0, plugin_type = ptype,
                plugin_placeholder = ap_placeholder a, plugin_position = 0,
                plugin_language = ap_language a, plugin_parent_id = None,
                plugin_path = [], plugin_model = None, plugin_data = []\<rparr>
               (db\<lparr>plugins := rows\<rparr>) = (node, db\<lparr>plugins := rows @ [node]\<rparr>)"
    by (simp add: add_root_plugin_def Let_def node_def)
  have sv: "save_plugin new (db\<lparr>plugins := rows @ [node]\<rparr>) = db\<lparr>plugins := rows @ [new]\<rparr>"
    by (simp add: save_plugin_def keep pk_new(2))
  have "add_plugin env a db = (Inr new, db\<lparr>plugins := rows @ [new]\<rparr>)"
    unfolding add_plugin_def using assms(1,3) place ar sv
    by (simp add: Let_def new_def [symmetric])
  moreover have "plugin_position new = 0" "root_sibling a new"
    by (simp_all add: root_sibling_def new_def node_def)
  moreover have "mset (map plugin_position (filter (root_sibling a) (plugins db))) = mset [0..<N] \<longrightarrow>
                mset (map plugin_position (filter (root_sibling a) rows)) = mset [1..<Suc N]"
  proof
    assume h: "mset (map plugin_position (filter (root_sibling a) (plugins db))) = mset [0..<N]"
    have "map plugin_position (filter (root_sibling a) rows)
            = map Suc (map plugin_position (filter (root_sibling a) (plugins db)))"
      by (simp add: rows_def filter_root_shifted shifted_def comp_def)
    then have "mset (map plugin_position (filter (root_sibling a) rows))
                 = image_mset Suc (mset [0..<N])"
      using h by (metis mset_map)
    also have "\<dots> = mset (map Suc [0..<N])" by simp
    also have "map Suc [0..<N] = [1..<Suc N]" by (simp add: map_Suc_upt)
    finally show "mset (map plugin_position (filter (root_sibling a) rows)) = mset [1..<Suc N]" .
  qed
  ultimately show ?thesis using fresh unfolding pks unfolding rows_def by blast
qed


theorem add_plugin_first_child_witness:
  "map (\<lambda>pl. (plugin_pk pl, plugin_placeholder pl, plugin_language pl, plugin_parent_id pl,
              plugin_position pl))
     (plugins (snd (add_plugin sample_env (sample_plugin_args ''first-child'' None) plugins_db)))
   = [(1, 1, ''en'', None, 1), (2, 1, ''en'', None, 2), (3, 1, ''en'', Some 1, 0),
      (4, 1, ''de'', None, 0), (5, 2, ''en'', None, 0), (6, 1, ''en'', None, 0)]
   \<and> mset (map plugin_position (filter (root_sibling (sample_plugin_args ''first-child'' None))
              (map (\<lambda>r. if root_sibling (sample_plugin_args ''first-child'' None) r
                         then shifted r else r) (plugins plugins_db))))
       = mset [1..<Suc 2]"
proof -
  let ?a = "sample_plugin_args ''first-child'' None"
  have h1: "ap_target ?a = None" and h2: "ap_position ?a = ''first-child''"
    by (simp_all add: sample_plugin_args_def)
  have h3: "verify_plugin_type sample_env (ap_plugin_type ?a) = Inr (''Text'', ''TextPlugin'')"
    by (simp add: verify_plugin_type_def sample_plugin_args_def sample_env_def)
  have h4: "distinct (map plugin_pk (plugins plugins_db))"
    by (simp add: plugins_db_def sample_db_def sample_plugin_def)
  have h5: "mset (map plugin_position (filter (root_sibling ?a) (plugins plugins_db))) = mset [0..<2]"
    by (simp add: plugins_db_def sample_db_def sample_plugin_def root_sibling_def
          sample_plugin_args_def upt_rec)
  from add_plugin_first_child [OF h1 h2 h3 h4, of 2] h5
  obtain new where r: "add_plugin sample_env ?a plugins_db
                 = (Inr new,
                    plugins_db\<lparr>plugins := map (\<lambda>r. if root_sibling ?a r then shifted r else r)
                                            (plugins plugins_db) @ [new]\<rparr>)"
    and m: "mset (map plugin_position (filter (root_sibling ?a)
              (map (\<lambda>r. if root_sibling ?a r then shifted r else r) (plugins plugins_db))))
       = mset [1..<Suc 2]"
    by blast
  have "map (\<lambda>pl. (plugin_pk pl, plugin_placeholder pl, plugin_language pl, plugin_parent_id pl,
              plugin_position pl))
     (plugins (snd (add_plugin sample_env ?a plugins_db)))
   = [(1, 1, ''en'', None, 1), (2, 1, ''en'', None, 2), (3, 1, ''en'', Some 1, 0),
      (4, 1, ''de'', None, 0), (5, 2, ''en'', None, 0), (6, 1, ''en'', None, 0)]"
    by (simp add: add_plugin_defs sample_defs sample_plugin_args_def plugins_db_def Let_def)
  with m show ?thesis by simp
qed

subsection \<open>Publishing many pages\<close>

lemma publish_languages_trace:
  "publish_languages env pk language langs (out, add, st) =
     (foldl pick_language out
        (map fst (publish_trace env (st_thread_user st) pk language langs (st_db st))),
      add \<and> list_all snd (publish_trace env (st_thread_user st) pk language langs (st_db st)),
      st\<lparr>st_db := publish_db env (st_thread_user st) pk language langs (st_db st)\<rparr>)"
proof (induction langs arbitrary: out add st)
  case Nil
  then show ?case by simp
next
  case (Cons lang langs)
  show ?case
  proof (cases "language = None \<or> Some lang = language")
    case False
    have "publish_languages env pk language (lang # langs) (out, add, st)
            = publish_languages env pk language langs (out, add, st)"
      by (simp only: publish_languages.simps False if_False)
    moreover have "publish_trace env (st_thread_user st) pk language (lang # langs) (st_db st)
            = publish_trace env (st_thread_user st) pk language langs (st_db st)"
      by (simp only: publish_trace.simps False if_False)
    moreover have "publish_db env (st_thread_user st) pk language (lang # langs) (st_db st)
            = publish_db env (st_thread_user st) pk language langs (st_db st)"
      by (simp only: publish_db.simps False if_False)
    ultimately show ?thesis
      by (simp only: Cons)
  next
    case True
    obtain db' ok where p: "env_page_publish env (st_thread_user st) (st_db st) pk lang = (db', ok)"
      by (cases "env_page_publish env (st_thread_user st) (st_db st) pk lang")
    have "publish_languages env pk language (lang # langs) (out, add, st)
            = publish_languages env pk language langs
                (pick_language out lang, add \<and> ok, st\<lparr>st_db := db'\<rparr>)"
      by (simp only: publish_languages.simps True if_True)
         (simp add: page_publish_def p Let_def pick_language_def)
    moreover have "publish_trace env (st_thread_user st) pk language (lang # langs) (st_db st)
            = (lang, ok) # publish_trace env (st_thread_user st) pk language langs db'"
      by (simp only: publish_trace.simps True if_True p fst_conv snd_conv)
    moreover have "publish_db env (st_thread_user st) pk language (lang # langs) (st_db st)
            = publish_db env (st_thread_user st) pk language langs db'"
      by (simp only: publish_db.simps True if_True p fst_conv)
    ultimately show ?thesis
      by (simp add: Cons [of "pick_language out lang" "add \<and> ok" "st\<lparr>st_db := db'\<rparr>"] conj_ac)
  qed
qed

lemma pick_language_fixed: "truthy out \<Longrightarrow> foldl pick_language out langs = out"
  by (induction langs) (simp_all add: pick_language_def)

lemma first_language_Cons:
  "first_language (l # langs) = (if l = [] then first_language langs else Some l)"
  by (simp add: first_language_def)

lemma pick_language_none:
  "\<not> truthy out \<Longrightarrow> first_language langs = None \<Longrightarrow> \<not> truthy (foldl pick_language out langs)"
proof (induction langs arbitrary: out)
  case Nil
  then show ?case by simp
next
  case (Cons l langs)
  from Cons.prems have l: "l = []" and rest: "first_language langs = None"
    by (simp_all add: first_language_Cons split: if_splits)
  from Cons.prems l have "\<not> truthy (pick_language out l)"
    by (simp add: pick_language_def)
  from Cons.IH [OF this rest] show ?case by simp
qed

lemma pick_language_some:
  "\<not> truthy out \<Longrightarrow> first_language langs = Some l \<Longrightarrow>
   foldl pick_language out langs = Some l \<and> l \<noteq> []"
proof (induction langs arbitrary: out)
  case Nil
  then show ?case by (simp add: first_language_def)
next
  case (Cons x langs)
  show ?case
  proof (cases "x = []")
    case True
    with Cons.prems have "\<not> truthy (pick_language out x)" "first_language langs = Some l"
      by (simp_all add: pick_language_def first_language_Cons)
    from Cons.IH [OF this] show ?thesis by simp
  next
    case False
    with Cons.prems have "pick_language out x = Some l" "truthy (Some l)" "l \<noteq> []"
      by (simp_all add: pick_language_def first_language_Cons)
    then show ?thesis
      by (simp add: pick_language_fixed)
  qed
qed

lemma pick_language_first:
  assumes "\<not> truthy out"
  shows "(if truthy (foldl pick_language out langs) then foldl pick_language out langs else d)
           = (case first_language langs of None \<Rightarrow> d | Some l \<Rightarrow> Some l)"
proof (cases "first_language langs")
  case None
  with pick_language_none [OF assms None] show ?thesis by simp
next
  case (Some l)
  with pick_language_some [OF assms Some] show ?thesis by simp
qed

lemma activate_fields:
  "st_db (activate l st) = st_db st" "st_thread_user (activate l st) = st_thread_user st"
  "st_active_language (activate l st) = (if truthy l then l else st_active_language st)"
  by (simp_all add: activate_def)

lemma publish_pages_loop_trace:
  "fst (publish_pages_loop env iu language qs out st)
     = map (\<lambda>(p, tr). (p, list_all snd tr))
         (pages_trace env (st_thread_user st) iu language qs (st_db st))
   \<and> st_active_language (snd (publish_pages_loop env iu language qs out st))
     = (if qs \<noteq> [] \<and> truthy (foldl pick_language out (map fst (concat (map snd
             (pages_trace env (st_thread_user st) iu language qs (st_db st))))))
        then foldl pick_language out (map fst (concat (map snd
             (pages_trace env (st_thread_user st) iu language qs (st_db st)))))
        else st_active_language st)"
proof (induction qs arbitrary: out st)
  case Nil
  then show ?case by simp
next
  case (Cons p qs)
  let ?langs = "title_languages iu (st_db st) p"
  let ?tr = "publish_trace env (st_thread_user st) (page_pk p) language ?langs (st_db st)"
  let ?db = "publish_db env (st_thread_user st) (page_pk p) language ?langs (st_db st)"
  let ?out1 = "foldl pick_language out (map fst ?tr)"
  let ?st1 = "activate ?out1 (st\<lparr>st_db := ?db\<rparr>)"
  have inner: "publish_languages env (page_pk p) language ?langs (out, True, st)
                 = (?out1, list_all snd ?tr, st\<lparr>st_db := ?db\<rparr>)"
    by (simp add: publish_languages_trace)
  obtain rest st2 where loop: "publish_pages_loop env iu language qs ?out1 ?st1 = (rest, st2)"
    by (cases "publish_pages_loop env iu language qs ?out1 ?st1")
  have step: "publish_pages_loop env iu language (p # qs) out st = ((p, list_all snd ?tr) # rest, st2)"
    by (simp add: inner loop)
  have f: "st_db ?st1 = ?db" "st_thread_user ?st1 = st_thread_user st"
    "st_active_language ?st1 = (if truthy ?out1 then ?out1 else st_active_language st)"
    by (simp_all add: activate_fields)
  note ih = Cons.IH [of ?out1 ?st1, unfolded loop f fst_conv snd_conv]
  have tr: "pages_trace env (st_thread_user st) iu language (p # qs) (st_db st)
              = (p, ?tr) # pages_trace env (st_thread_user st) iu language qs ?db"
    by simp
  show ?case
    unfolding step tr fst_conv snd_conv
    using ih by (cases "truthy ?out1") (auto simp: pick_language_fixed)
qed


lemma pages_trace_pages: "map fst (pages_trace env acting iu language qs db) = qs"
  by (induction qs arbitrary: db) simp_all

lemma selected_drafts_distinct: "distinct (pages db) \<Longrightarrow> distinct (selected_drafts iu site db)"
  by (simp add: selected_drafts_def Let_def split: option.splits)

text \<open>
  Claim C8. The pairs that \<^verbatim>\<open>publish_pages\<close> yields are, in order, the draft pages that
  its filters select, each once (the selected pages are pairwise different when the rows
  of the page table are). The flag of a page is false if and only if one of the
  publications attempted for the page, one for each targeted language of its titles,
  failed. The function has no error result: a failed publication only clears the flag.
\<close>

theorem publish_pages_flags:
  "map fst (fst (publish_pages env iu language site st)) = selected_drafts iu site (st_db st)
   \<and> (distinct (pages (st_db st)) \<longrightarrow> distinct (map fst (fst (publish_pages env iu language site st))))
   \<and> list_all2 (\<lambda>(p, flag) (q, tr). p = q \<and> (\<not> flag \<longleftrightarrow> (\<exists>lang. (lang, False) \<in> set tr)))
       (fst (publish_pages env iu language site st))
       (pages_trace env (st_thread_user st) iu language (selected_drafts iu site (st_db st))
          (st_db st))"
proof -
  let ?qs = "selected_drafts iu site (st_db st)"
  let ?tr = "pages_trace env (st_thread_user st) iu language ?qs (st_db st)"
  have res: "fst (publish_pages env iu language site st) = map (\<lambda>(p, tr). (p, list_all snd tr)) ?tr"
    using publish_pages_loop_trace [of env iu language ?qs None st]
    by (simp add: publish_pages_def)
  have pages: "map fst (fst (publish_pages env iu language site st)) = ?qs"
    unfolding res using pages_trace_pages [of env "st_thread_user st" iu language ?qs "st_db st"]
    by (simp add: comp_def case_prod_beta)
  have flags: "list_all2 (\<lambda>(p, flag) (q, tr). p = q \<and> (\<not> flag \<longleftrightarrow> (\<exists>lang. (lang, False) \<in> set tr)))
                 (map (\<lambda>(p, tr). (p, list_all snd tr)) ?tr) ?tr"
    by (rule list_all2_all_nthI) (force simp: case_prod_beta list_all_iff)+
  from pages flags selected_drafts_distinct [of "st_db st" iu site] show ?thesis
    by (simp add: res [symmetric])
qed

text \<open>
  Claim C9, as amended. After \<^verbatim>\<open>publish_pages\<close> the current language is the language of
  the first page/language combination that the call attempted to publish (the first with
  a non-empty language code), whether or not that publication succeeded; if there is no
  such combination the current language is the one before the call.
\<close>

theorem publish_pages_activates_first_attempted:
  "st_active_language (snd (publish_pages env iu language site st)) =
     (case first_attempted_language
             (pages_trace env (st_thread_user st) iu language
                (selected_drafts iu site (st_db st)) (st_db st)) of
        None \<Rightarrow> st_active_language st
      | Some l \<Rightarrow> Some l)"
proof -
  let ?qs = "selected_drafts iu site (st_db st)"
  let ?langs = "map fst (concat (map snd (pages_trace env (st_thread_user st) iu language ?qs (st_db st))))"
  have "st_active_language (snd (publish_pages env iu language site st))
          = (if ?qs \<noteq> [] \<and> truthy (foldl pick_language None ?langs)
             then foldl pick_language None ?langs else st_active_language st)"
    using publish_pages_loop_trace [of env iu language ?qs None st]
    by (simp add: publish_pages_def)
  also have "\<dots> = (if truthy (foldl pick_language None ?langs)
             then foldl pick_language None ?langs else st_active_language st)"
    by (cases "?qs = []") simp_all
  also have "\<dots> = (case first_language ?langs of None \<Rightarrow> st_active_language st | Some l \<Rightarrow> Some l)"
    by (rule pick_language_first) simp
  finally show ?thesis
    by (simp add: first_attempted_language_def)
qed

lemma bilingual_selected:
  "selected_drafts False None (st_db bilingual_state)
     = [sample_page 1 None 1 None True, sample_page 2 None 1 None True]"
  by (simp add: selected_drafts_def bilingual_state_def sample_page_def sample_title_def
        sample_db_def sample_state_def Let_def)

lemma bilingual_trace:
  "pages_trace sample_env None False None
     [sample_page 1 None 1 None True, sample_page 2 None 1 None True] (st_db bilingual_state)
   = [(sample_page 1 None 1 None True, [(''de'', False), (''en'', True)]),
      (sample_page 2 None 1 None True, [(''en'', True)])]"
  by (simp add: title_languages_def bilingual_state_def sample_defs)

text \<open>
  Claim C9, as stated, fails: for a draft page with a German and an English title, where
  publishing German fails and publishing English succeeds, the language made current is
  German, while the first combination published successfully is the English one.
\<close>

theorem publish_pages_first_success_counterexample:
  "st_active_language (snd (publish_pages sample_env False None None bilingual_state)) = Some ''de''
   \<and> first_published_language
        (pages_trace sample_env (st_thread_user bilingual_state) False None
           (selected_drafts False None (st_db bilingual_state)) (st_db bilingual_state))
       = Some ''en''
   \<and> st_active_language (snd (publish_pages sample_env False None None bilingual_state))
       \<noteq> first_published_language
           (pages_trace sample_env (st_thread_user bilingual_state) False None
              (selected_drafts False None (st_db bilingual_state)) (st_db bilingual_state))"
proof -
  have tu: "st_thread_user bilingual_state = None"
    by (simp add: bilingual_state_def sample_state_def)
  have active: "st_active_language (snd (publish_pages sample_env False None None bilingual_state))
                  = Some ''de''"
    unfolding publish_pages_def bilingual_selected
    by (simp add: title_languages_def page_publish_def activate_def bilingual_state_def sample_defs)
  have first: "first_published_language
        (pages_trace sample_env (st_thread_user bilingual_state) False None
           (selected_drafts False None (st_db bilingual_state)) (st_db bilingual_state))
       = Some ''en''"
    unfolding tu bilingual_selected bilingual_trace
    by (simp add: first_published_language_def)
  show ?thesis
    unfolding active first by simp
qed

theorem publish_pages_activates_first_attempted_witness:
  "st_active_language (snd (publish_pages sample_env False None None bilingual_state)) = Some ''de''"
proof -
  have tu: "st_thread_user bilingual_state = None"
    by (simp add: bilingual_state_def sample_state_def)
  from publish_pages_activates_first_attempted [of sample_env False None None bilingual_state]
  have "st_active_language (snd (publish_pages sample_env False None None bilingual_state))
          = (case first_attempted_language
                    [(sample_page 1 None 1 None True, [(''de'', False), (''en'', True)]),
                     (sample_page 2 None 1 None True, [(''en'', True)])] of
               None \<Rightarrow> st_active_language bilingual_state
             | Some l \<Rightarrow> Some l)"
    unfolding tu bilingual_selected bilingual_trace .
  then show ?thesis
    by (simp add: first_attempted_language_def first_language_def)
qed

theorem publish_pages_flags_witness:
  "fst (publish_pages sample_env False None None bilingual_state)
     = [(sample_page 1 None 1 None True, False), (sample_page 2 None 1 None True, True)]
   \<and> distinct (pages (st_db bilingual_state))
   \<and> distinct (map fst (fst (publish_pages sample_env False None None bilingual_state)))"
proof -
  have tu: "st_thread_user bilingual_state = None"
    by (simp add: bilingual_state_def sample_state_def)
  have rows: "distinct (pages (st_db bilingual_state))"
    by (simp add: bilingual_state_def sample_state_def sample_db_def sample_page_def)
  note flags = publish_pages_flags [of sample_env False None None bilingual_state,
                 unfolded tu bilingual_selected bilingual_trace]
  from flags have "distinct (pages (st_db bilingual_state)) \<longrightarrow>
         distinct (map fst (fst (publish_pages sample_env False None None bilingual_state)))"
    by (rule conjunct1 [OF conjunct2])
  with rows have d: "distinct (map fst (fst (publish_pages sample_env False None None bilingual_state)))"
    by (rule rev_mp)
  from flags have "list_all2 (\<lambda>(p, flag) (q, tr). p = q \<and> (\<not> flag \<longleftrightarrow> (\<exists>lang. (lang, False) \<in> set tr)))
       (fst (publish_pages sample_env False None None bilingual_state))
       [(sample_page 1 None 1 None True, [(''de'', False), (''en'', True)]),
        (sample_page 2 None 1 None True, [(''en'', True)])]"
    by (rule conjunct2 [OF conjunct2])
  then have "fst (publish_pages sample_env False None None bilingual_state)
     = [(sample_page 1 None 1 None True, False), (sample_page 2 None 1 None True, True)]"
    by (auto simp: list_all2_Cons2)
  with rows d show ?thesis
    by (simp only: simp_thms)
qed

subsection \<open>Copying plugins to another language\<close>

lemma copy_plugins_loop_result:
  "copy_plugins_loop k ph lang olds cache db = (news, db') \<Longrightarrow>
   plugins db' = plugins db @ news
   \<and> list_all2 (is_copy_of ph lang) news olds
   \<and> map plugin_path news = map (\<lambda>x. k # plugin_path x) olds"
proof (induction olds arbitrary: cache db news db')
  case Nil
  then show ?case by simp
next
  case (Cons old olds)
  let ?new = "old\<lparr>plugin_pk := fresh_pk (map plugin_pk (plugins db)),
                    plugin_placeholder := ph,
                    plugin_language := lang,
                    plugin_parent_id :=
                      (case plugin_parent_id old of None \<Rightarrow> None | Some q \<Rightarrow> map_of cache q),
                    plugin_path := k # plugin_path old\<rparr>"
  obtain ns d where rec: "copy_plugins_loop k ph lang olds
                ((plugin_pk old, plugin_pk ?new) # cache) (db\<lparr>plugins := plugins db @ [?new]\<rparr>) = (ns, d)"
    by (cases "copy_plugins_loop k ph lang olds
                ((plugin_pk old, plugin_pk ?new) # cache) (db\<lparr>plugins := plugins db @ [?new]\<rparr>)")
  with Cons.prems have eq: "news = ?new # ns" "db' = d"
    by (simp_all add: Let_def)
  from Cons.IH [OF rec] have "plugins d = (plugins db @ [?new]) @ ns"
    "list_all2 (is_copy_of ph lang) ns olds"
    "map plugin_path ns = map (\<lambda>x. k # plugin_path x) olds"
    by simp_all
  moreover have "is_copy_of ph lang ?new old"
    by (simp add: is_copy_of_def)
  ultimately show ?case
    using eq by simp
qed

lemma sorted_map_Cons_path:
  "sorted (map (\<lambda>x. k # plugin_path x) olds) = sorted (map plugin_path olds)"
  by (induction olds) auto

lemma copy_plugins_to_result:
  assumes "copy_plugins_to olds ph lang db = (news, db')"
  shows "plugins db' = plugins db @ news"
    and "list_all2 (is_copy_of ph lang) news olds"
    and "sorted (map plugin_path olds) \<Longrightarrow> sorted (map plugin_path news)"
    and "\<forall>pl \<in> set news. plugin_placeholder pl = ph \<and> plugin_language pl = lang"
proof -
  from assms copy_plugins_loop_result
  have r: "plugins db' = plugins db @ news" "list_all2 (is_copy_of ph lang) news olds"
    "map plugin_path news
       = map (\<lambda>x. fresh_pk (concat (map plugin_path (plugins db))) # plugin_path x) olds"
    unfolding copy_plugins_to_def by blast+
  show "plugins db' = plugins db @ news" "list_all2 (is_copy_of ph lang) news olds"
    by (fact r)+
  show "sorted (map plugin_path olds) \<Longrightarrow> sorted (map plugin_path news)"
    by (simp add: r(3) sorted_map_Cons_path)
  from r(2) show "\<forall>pl \<in> set news. plugin_placeholder pl = ph \<and> plugin_language pl = lang"
    by (auto simp: list_all2_conv_all_nth in_set_conv_nth is_copy_of_def)
qed


lemma placeholder_plugins_append:
  "plugins db1 = plugins db @ cp \<Longrightarrow>
   placeholder_plugins db1 ph language
     = placeholder_plugins db ph language
       @ filter (\<lambda>pl. plugin_placeholder pl = ph \<and> plugin_language pl = language) cp"
  by (simp add: placeholder_plugins_def)

lemma placeholder_plugins_other:
  assumes "plugins db1 = plugins db @ cp"
      and "\<forall>pl \<in> set cp. plugin_placeholder pl = ph0" and "ph \<noteq> ph0"
  shows "placeholder_plugins db1 ph language = placeholder_plugins db ph language"
proof -
  have "filter (\<lambda>pl. plugin_placeholder pl = ph \<and> plugin_language pl = language) cp = []"
    using assms(2,3) by (auto simp: filter_empty_conv)
  with placeholder_plugins_append [OF assms(1)] show ?thesis by simp
qed

lemma filter_placeholder_other:
  "\<forall>pl \<in> set cp. plugin_placeholder pl = ph0 \<Longrightarrow> ph \<noteq> ph0 \<Longrightarrow>
   filter (\<lambda>pl. plugin_placeholder pl = ph) cp = []"
  by (auto simp: filter_empty_conv)

lemma filter_placeholder_same:
  "\<forall>pl \<in> set cp. plugin_placeholder pl = ph0 \<Longrightarrow>
   filter (\<lambda>pl. plugin_placeholder pl = ph0) cp = cp"
  by (simp add: filter_id_conv)

lemma filter_placeholder_notin:
  "\<forall>pl \<in> set news. plugin_placeholder pl \<in> set phs \<Longrightarrow> ph \<notin> set phs \<Longrightarrow>
   filter (\<lambda>pl. plugin_placeholder pl = ph) news = []"
  by (auto simp: filter_empty_conv)

lemma copy_placeholders_inv:
  assumes "copy_placeholders src tgt oe phs c db = (c', db')"
  shows "\<exists>news. plugins db' = plugins db @ news \<and> c' = c + length news
      \<and> (\<forall>pl \<in> set news. plugin_placeholder pl \<in> set phs)
      \<and> (oe \<longrightarrow> (\<forall>ph. placeholder_plugins db ph tgt \<noteq> [] \<longrightarrow>
                     filter (\<lambda>pl. plugin_placeholder pl = ph) news = []))
      \<and> (\<not> oe \<longrightarrow> distinct phs \<longrightarrow>
           (\<forall>ph \<in> set phs.
              list_all2 (is_copy_of ph tgt) (filter (\<lambda>pl. plugin_placeholder pl = ph) news)
                (source_plugins db ph src)
              \<and> sorted (map plugin_path (filter (\<lambda>pl. plugin_placeholder pl = ph) news))))"
  using assms
proof (induction phs arbitrary: c db c' db')
  case Nil
  then show ?case by simp
next
  case (Cons ph0 rest)
  show ?case
  proof (cases "\<not> oe \<or> \<not> (placeholder_plugins db ph0 tgt \<noteq> [])")
    case True
    obtain cp db1 where cpy: "copy_plugins_to (source_plugins db ph0 src) ph0 tgt db = (cp, db1)"
      by (cases "copy_plugins_to (source_plugins db ph0 src) ph0 tgt db")
    have "copy_placeholders src tgt oe (ph0 # rest) c db
            = copy_placeholders src tgt oe rest (c + length cp) db1"
      by (simp only: copy_placeholders.simps True if_True cpy prod.case)
    with Cons.prems have rec: "copy_placeholders src tgt oe rest (c + length cp) db1 = (c', db')"
      by simp
    have srt: "sorted (map plugin_path (source_plugins db ph0 src))"
      by (simp add: source_plugins_def)
    note r = copy_plugins_to_result [OF cpy]
    have cp_ph: "\<forall>pl \<in> set cp. plugin_placeholder pl = ph0"
      using r(4) by blast
    from Cons.IH [OF rec] obtain news1 where
      n1: "plugins db' = plugins db1 @ news1" "c' = c + length cp + length news1"
      and n2: "\<forall>pl \<in> set news1. plugin_placeholder pl \<in> set rest"
      and n3: "oe \<longrightarrow> (\<forall>ph. placeholder_plugins db1 ph tgt \<noteq> [] \<longrightarrow>
                     filter (\<lambda>pl. plugin_placeholder pl = ph) news1 = [])"
      and n4: "\<not> oe \<longrightarrow> distinct rest \<longrightarrow>
           (\<forall>ph \<in> set rest.
              list_all2 (is_copy_of ph tgt) (filter (\<lambda>pl. plugin_placeholder pl = ph) news1)
                (source_plugins db1 ph src)
              \<and> sorted (map plugin_path (filter (\<lambda>pl. plugin_placeholder pl = ph) news1)))"
      by blast
    have a: "plugins db' = plugins db @ (cp @ news1)" "c' = c + length (cp @ news1)"
      using n1 r(1) by simp_all
    have b: "\<forall>pl \<in> set (cp @ news1). plugin_placeholder pl \<in> set (ph0 # rest)"
      using n2 cp_ph by auto
    have c: "oe \<longrightarrow> (\<forall>ph. placeholder_plugins db ph tgt \<noteq> [] \<longrightarrow>
                     filter (\<lambda>pl. plugin_placeholder pl = ph) (cp @ news1) = [])"
    proof (intro impI allI)
      fix ph assume oe: oe and pop: "placeholder_plugins db ph tgt \<noteq> []"
      from True oe have "placeholder_plugins db ph0 tgt = []" by simp
      with pop have ne: "ph \<noteq> ph0" by auto
      from pop placeholder_plugins_append [OF r(1), of ph tgt]
      have "placeholder_plugins db1 ph tgt \<noteq> []" by simp
      with n3 oe have "filter (\<lambda>pl. plugin_placeholder pl = ph) news1 = []" by simp
      with filter_placeholder_other [OF cp_ph ne]
      show "filter (\<lambda>pl. plugin_placeholder pl = ph) (cp @ news1) = []" by simp
    qed
    have d: "\<not> oe \<longrightarrow> distinct (ph0 # rest) \<longrightarrow>
           (\<forall>ph \<in> set (ph0 # rest).
              list_all2 (is_copy_of ph tgt) (filter (\<lambda>pl. plugin_placeholder pl = ph) (cp @ news1))
                (source_plugins db ph src)
              \<and> sorted (map plugin_path (filter (\<lambda>pl. plugin_placeholder pl = ph) (cp @ news1))))"
    proof (intro impI ballI)
      fix ph assume noe: "\<not> oe" and dist: "distinct (ph0 # rest)" and ph: "ph \<in> set (ph0 # rest)"
      show "list_all2 (is_copy_of ph tgt) (filter (\<lambda>pl. plugin_placeholder pl = ph) (cp @ news1))
                (source_plugins db ph src)
              \<and> sorted (map plugin_path (filter (\<lambda>pl. plugin_placeholder pl = ph) (cp @ news1)))"
      proof (cases "ph = ph0")
        case True
        from dist have "ph0 \<notin> set rest" by simp
        from filter_placeholder_notin [OF n2 this] filter_placeholder_same [OF cp_ph]
        have "filter (\<lambda>pl. plugin_placeholder pl = ph0) (cp @ news1) = cp" by simp
        with True r(2) r(3) [OF srt] show ?thesis by simp
      next
        case False
        with ph have in_rest: "ph \<in> set rest" by simp
        from filter_placeholder_other [OF cp_ph False]
        have f: "filter (\<lambda>pl. plugin_placeholder pl = ph) (cp @ news1)
                   = filter (\<lambda>pl. plugin_placeholder pl = ph) news1" by simp
        have s: "source_plugins db1 ph src = source_plugins db ph src"
          using placeholder_plugins_other [OF r(1) cp_ph False, of src]
          by (simp add: source_plugins_def)
        from n4 noe dist in_rest
        have "list_all2 (is_copy_of ph tgt) (filter (\<lambda>pl. plugin_placeholder pl = ph) news1)
                (source_plugins db1 ph src)
              \<and> sorted (map plugin_path (filter (\<lambda>pl. plugin_placeholder pl = ph) news1))"
          by simp
        then show ?thesis unfolding f s .
      qed
    qed
    from a b c d show ?thesis by blast
  next
    case False
    have "copy_placeholders src tgt oe (ph0 # rest) c db
            = copy_placeholders src tgt oe rest c db"
      by (simp only: copy_placeholders.simps False if_False)
    with Cons.prems have rec: "copy_placeholders src tgt oe rest c db = (c', db')"
      by simp
    from False have oe: oe by simp
    from Cons.IH [OF rec] obtain news1 where
      n1: "plugins db' = plugins db @ news1" "c' = c + length news1"
      and n2: "\<forall>pl \<in> set news1. plugin_placeholder pl \<in> set rest"
      and n3: "oe \<longrightarrow> (\<forall>ph. placeholder_plugins db ph tgt \<noteq> [] \<longrightarrow>
                     filter (\<lambda>pl. plugin_placeholder pl = ph) news1 = [])"
      by blast
    from n2 have "\<forall>pl \<in> set news1. plugin_placeholder pl \<in> set (ph0 # rest)" by simp
    with n1 n3 oe show ?thesis by blast
  qed
qed


text \<open>
  Claim C7. \<^verbatim>\<open>copy_plugins_to_language\<close> only appends rows to the plugin table, and the
  number it returns is the number of rows it appended. With \<^verbatim>\<open>only_empty\<close>, no row is
  appended to a placeholder that had a plugin in the target language before the call.
  Without it, for a page whose placeholders are pairwise different, the rows appended to
  each placeholder of the page are copies into the target language of the plugins that
  the placeholder had in the source language, one for each and in their order by path,
  and the paths of the copies are in that order too.
\<close>

theorem copy_plugins_to_language_copies:
  assumes "copy_plugins_to_language pg src tgt only_empty db = (copied, db')"
  shows "\<exists>news. plugins db' = plugins db @ news \<and> copied = length news
      \<and> (only_empty \<longrightarrow> (\<forall>ph. placeholder_plugins db ph tgt \<noteq> [] \<longrightarrow>
                     filter (\<lambda>pl. plugin_placeholder pl = ph) news = []))
      \<and> (\<not> only_empty \<longrightarrow> distinct (page_placeholders pg) \<longrightarrow>
           (\<forall>ph \<in> set (page_placeholders pg).
              list_all2 (is_copy_of ph tgt) (filter (\<lambda>pl. plugin_placeholder pl = ph) news)
                (source_plugins db ph src)
              \<and> sorted (map plugin_path (filter (\<lambda>pl. plugin_placeholder pl = ph) news))))"
proof -
  from assms have "copy_placeholders src tgt only_empty (page_placeholders pg) 0 db = (copied, db')"
    by (simp add: copy_plugins_to_language_def)
  from copy_placeholders_inv [OF this] show ?thesis
    by (simp only: add_0) blast
qed

lemmas copy_plugins_defs = copy_plugins_to_language_def copy_plugins_to_def source_plugins_def
  placeholder_plugins_def fresh_pk_def


lemma copy_only_empty_keys:
  "map plugin_pk (plugins (snd (copy_plugins_to_language two_placeholders ''en'' ''de'' True plugins_db)))
     = [1, 2, 3, 4, 5, 6]"
  by (simp add: copy_plugins_defs two_placeholders_def plugins_db_def sample_defs Let_def)

lemma copy_all_rows:
  "map (\<lambda>pl. (plugin_pk pl, plugin_placeholder pl, plugin_language pl, plugin_parent_id pl,
              plugin_position pl, plugin_path pl))
     (plugins (snd (copy_plugins_to_language two_placeholders ''en'' ''de'' False plugins_db)))
   = [(1, 1, ''en'', None, 0, [1]), (2, 1, ''en'', None, 1, [2]),
      (3, 1, ''en'', Some 1, 0, [1, 1]), (4, 1, ''de'', None, 0, [3]),
      (5, 2, ''en'', None, 0, [4]),
      (6, 1, ''de'', None, 0, [5, 1]), (7, 1, ''de'', Some 6, 0, [5, 1, 1]),
      (8, 1, ''de'', None, 1, [5, 2]), (9, 2, ''de'', None, 0, [6, 4])]"
  by (simp add: copy_plugins_defs two_placeholders_def plugins_db_def sample_defs Let_def)


theorem copy_plugins_to_language_copies_witness:
  "fst (copy_plugins_to_language two_placeholders ''en'' ''de'' True plugins_db) = 1
   \<and> filter (\<lambda>pl. plugin_placeholder pl = 1)
       (drop 5 (plugins (snd (copy_plugins_to_language two_placeholders ''en'' ''de'' True
                                plugins_db)))) = []
   \<and> fst (copy_plugins_to_language two_placeholders ''en'' ''de'' False plugins_db) = 4
   \<and> length (filter (\<lambda>pl. plugin_placeholder pl = 1)
       (drop 5 (plugins (snd (copy_plugins_to_language two_placeholders ''en'' ''de'' False
                                plugins_db))))) = 3"
proof -
  let ?r1 = "copy_plugins_to_language two_placeholders ''en'' ''de'' True plugins_db"
  let ?r2 = "copy_plugins_to_language two_placeholders ''en'' ''de'' False plugins_db"
  have len: "length (plugins plugins_db) = 5"
    by (simp add: plugins_db_def sample_db_def)
  have populated: "placeholder_plugins plugins_db 1 ''de'' \<noteq> []"
    by (simp add: placeholder_plugins_def plugins_db_def sample_db_def sample_plugin_def)
  have sources: "length (source_plugins plugins_db 1 ''en'') = 3"
    by (simp add: source_plugins_def placeholder_plugins_def plugins_db_def sample_db_def
          sample_plugin_def)
  have phs: "distinct (page_placeholders two_placeholders)" "1 \<in> set (page_placeholders two_placeholders)"
    by (simp_all add: two_placeholders_def)
  from copy_plugins_to_language_copies [of two_placeholders "''en''" "''de''" True plugins_db
         "fst ?r1" "snd ?r1"] populated
  obtain n1 where n1: "plugins (snd ?r1) = plugins plugins_db @ n1" "fst ?r1 = length n1"
    "filter (\<lambda>pl. plugin_placeholder pl = 1) n1 = []"
    by auto
  from copy_plugins_to_language_copies [of two_placeholders "''en''" "''de''" False plugins_db
         "fst ?r2" "snd ?r2"] phs
  obtain n2 where n2: "plugins (snd ?r2) = plugins plugins_db @ n2" "fst ?r2 = length n2"
    "list_all2 (is_copy_of 1 ''de'') (filter (\<lambda>pl. plugin_placeholder pl = 1) n2)
       (source_plugins plugins_db 1 ''en'')"
    by auto
  have d1: "drop 5 (plugins (snd ?r1)) = n1" and d2: "drop 5 (plugins (snd ?r2)) = n2"
    using n1(1) n2(1) len by simp_all
  have "length (plugins (snd ?r1)) = 6"
    using arg_cong [OF copy_only_empty_keys, of length] by simp
  with n1 len have c1: "fst ?r1 = 1" by simp
  have "length (plugins (snd ?r2)) = 9"
    using arg_cong [OF copy_all_rows, of length] by simp
  with n2 len have c2: "fst ?r2 = 4" by simp
  from n2(3) sources have "length (filter (\<lambda>pl. plugin_placeholder pl = 1) n2) = 3"
    by (simp add: list_all2_lengthD)
  with c1 c2 n1(3) show ?thesis
    unfolding d1 d2 by simp
qed

end
